theory Spec2Isabelle
  imports Complex_Main
begin

section \<open>DatasetBuilder: the sharded dataset of design-bench\<close>

text \<open>
  The development follows \<^verbatim>\<open>src/design_bench/datasets/dataset_builder.py\<close>.
  A design value is a row of reals, a prediction value is one real (the constructor
  admits only predictions of shape [N, 1]), a shard is the list of its rows, and the
  design rows of one dataset have one width, as the rows of a numpy array do.
  Arithmetic is exact: reals stand for the floating point numbers of numpy.

  Every shard is a resident numpy array, the first branch of each
  \<^verbatim>\<open>isinstance\<close> dispatch of the source. The second branch, a
  \<^verbatim>\<open>DiskResource\<close> read with \<^verbatim>\<open>np.load\<close> and written with
  \<^verbatim>\<open>np.save\<close>, belongs to a module outside this file and is not modelled.
\<close>

subsection \<open>Errors and Python list indexing\<close>

text \<open>
  The source raises \<^verbatim>\<open>ValueError\<close> everywhere; the constructors below name the
  place that raises. \<open>PyIndexError\<close> is the \<^verbatim>\<open>IndexError\<close> of a Python list
  subscript, \<open>PyValueError\<close> the \<^verbatim>\<open>ValueError\<close> that numpy raises
  (\<^verbatim>\<open>np.concatenate\<close> of no arrays, \<^verbatim>\<open>np.percentile\<close> and
  \<^verbatim>\<open>np.random.choice\<close> on arguments out of range, arrays whose shapes do not fit),
  \<open>PyTypeError\<close> the \<^verbatim>\<open>TypeError\<close> of arithmetic on \<^verbatim>\<open>None\<close>.
  \<open>Diverges\<close> is not raised by the source: it stands for a loop of the source that
  repeats one state for ever.
\<close>

datatype error =
    InvalidArgument
  | IndexOutOfRange
  | FrozenStatisticsError
  | EmptySplitError
  | PyIndexError
  | PyValueError
  | PyTypeError
  | Diverges

definition py_index :: "'a list \<Rightarrow> int \<Rightarrow> error + 'a" where
  \<comment> \<open>\<^verbatim>\<open>xs[i]\<close>: an index below zero counts back from the end of the list\<close>
  "py_index xs i =
     (if 0 \<le> i \<and> i < int (length xs) then Inr (xs ! nat i)
      else if i < 0 \<and> - int (length xs) \<le> i then Inr (xs ! nat (int (length xs) + i))
      else Inl PyIndexError)"

definition py_assign :: "'a list \<Rightarrow> int \<Rightarrow> 'a \<Rightarrow> error + 'a list" where
  \<comment> \<open>\<^verbatim>\<open>xs[i] = v\<close>\<close>
  "py_assign xs i v =
     (if 0 \<le> i \<and> i < int (length xs) then Inr (xs[nat i := v])
      else if i < 0 \<and> - int (length xs) \<le> i then Inr (xs[nat (int (length xs) + i) := v])
      else Inl PyIndexError)"

subsection \<open>The state of a DatasetBuilder\<close>

datatype bound = NINF | Fin real | PINF

fun bound_le :: "bound \<Rightarrow> real \<Rightarrow> bool" where
  \<comment> \<open>\<open>b \<le> v\<close>\<close>
  "bound_le NINF v = True"
| "bound_le (Fin b) v = (b \<le> v)"
| "bound_le PINF v = False"

fun bound_ge :: "bound \<Rightarrow> real \<Rightarrow> bool" where
  \<comment> \<open>\<open>b \<ge> v\<close>\<close>
  "bound_ge NINF v = False"
| "bound_ge (Fin b) v = (v \<le> b)"
| "bound_ge PINF v = True"

fun bound_lt :: "bound \<Rightarrow> real \<Rightarrow> bool" where
  \<comment> \<open>\<open>b < v\<close>\<close>
  "bound_lt NINF v = True"
| "bound_lt (Fin b) v = (b < v)"
| "bound_lt PINF v = False"

fun bound_gt :: "bound \<Rightarrow> real \<Rightarrow> bool" where
  \<comment> \<open>\<open>b > v\<close>\<close>
  "bound_gt NINF v = False"
| "bound_gt (Fin b) v = (v < b)"
| "bound_gt PINF v = True"

text \<open>
  A cached statistic is \<^verbatim>\<open>None\<close> until computed. Computed over no batch at all it
  is a Python scalar; computed over batches it is an array of shape [1, d]; computed from
  a first batch without rows it is 0/0, an array of NaN.
\<close>

datatype stat = Scalar real | Row "real list" | NaN

record dataset =
  x_shards :: "real list list list"
  y_shards :: "real list list"
  num_shards :: nat
  dataset_min_percentile :: real
  dataset_max_percentile :: real
  dataset_min_output :: bound
  dataset_max_output :: bound
  internal_batch_size :: int
  is_normalized_x :: bool
  is_normalized_y :: bool
  disable_transform :: bool
  freeze_statistics :: bool
  x_mean :: "stat option"
  y_mean :: "stat option"
  x_standard_dev :: "stat option"
  y_standard_dev :: "stat option"
  input_shape :: "nat list option"
  input_size :: "nat option"
  dataset_size :: nat

text \<open>
  A method that changes the builder returns the builder, or the error it raises together
  with the builder as the raise leaves it.
\<close>

type_synonym outcome = "(error \<times> dataset) + dataset"

subsection \<open>Shard access\<close>

definition get_num_shards :: "dataset \<Rightarrow> nat" where
  "get_num_shards s = num_shards s"

definition get_shard_x :: "dataset \<Rightarrow> int \<Rightarrow> error + real list list" where
  "get_shard_x s shard_id =
     (if 0 < shard_id \<and> shard_id \<ge> int (get_num_shards s) then Inl IndexOutOfRange
      else py_index (x_shards s) shard_id)"

definition get_shard_y :: "dataset \<Rightarrow> int \<Rightarrow> error + real list" where
  "get_shard_y s shard_id =
     (if 0 < shard_id \<and> shard_id \<ge> int (get_num_shards s) then Inl IndexOutOfRange
      else py_index (y_shards s) shard_id)"

definition set_shard_x :: "dataset \<Rightarrow> int \<Rightarrow> real list list \<Rightarrow> outcome" where
  "set_shard_x s shard_id shard_data =
     (if 0 < shard_id \<and> shard_id \<ge> int (get_num_shards s) then Inl (IndexOutOfRange, s)
      else case py_assign (x_shards s) shard_id shard_data of
             Inl e \<Rightarrow> Inl (e, s)
           | Inr xs \<Rightarrow> Inr (s\<lparr>x_shards := xs\<rparr>))"

definition set_shard_y :: "dataset \<Rightarrow> int \<Rightarrow> real list \<Rightarrow> outcome" where
  "set_shard_y s shard_id shard_data =
     (if 0 < shard_id \<and> shard_id \<ge> int (get_num_shards s) then Inl (IndexOutOfRange, s)
      else case py_assign (y_shards s) shard_id shard_data of
             Inl e \<Rightarrow> Inl (e, s)
           | Inr ys \<Rightarrow> Inr (s\<lparr>y_shards := ys\<rparr>))"

subsection \<open>Streaming batches\<close>

text \<open>
  \<^verbatim>\<open>batch_transform\<close> is an abstract method of the class; the functions below take
  it as the parameter \<open>bt\<close>, a function of the builder's fields, the two
  \<^verbatim>\<open>return_\<close> flags and the two slices. A channel that is not requested is
  \<^verbatim>\<open>None\<close> in the source and the empty list here.
\<close>

type_synonym batch = "real list list \<times> real list"

type_synonym transform =
  "dataset \<Rightarrow> bool \<Rightarrow> bool \<Rightarrow> real list list \<Rightarrow> real list \<Rightarrow> real list list \<times> real list"

text \<open>
  The \<^verbatim>\<open>while\<close> loop over one shard. The arguments after the shard data are the
  loop variables \<^verbatim>\<open>shard_position\<close>, \<^verbatim>\<open>y_batch_size\<close>,
  \<^verbatim>\<open>x_batch\<close> and \<^verbatim>\<open>y_batch\<close>; the buffers hold the rows of the slices
  appended so far, which the source concatenates when it yields. The result is the list of
  batches yielded inside this shard and the loop variables the next shard starts from.

  The test \<open>y_batch_size < batch_size\<close> at the loop head is not in the source. It holds
  whenever the source reaches the loop head (the buffer is reset as soon as it holds
  \<open>batch_size\<close> rows), so \<^verbatim>\<open>target_size\<close> is at least one and the position
  advances; the test only states this to HOL.
\<close>

function shard_loop ::
  "transform \<Rightarrow> dataset \<Rightarrow> int \<Rightarrow> bool \<Rightarrow> bool \<Rightarrow> bool \<Rightarrow> nat
    \<Rightarrow> real list list \<Rightarrow> real list \<Rightarrow> nat \<Rightarrow> int \<Rightarrow> real list list \<Rightarrow> real list
    \<Rightarrow> batch list \<times> int \<times> real list list \<times> real list" where
  "shard_loop bt s batch_size return_x return_y drop_remainder shard_id
       x_shard_data y_shard_data shard_position y_batch_size x_batch y_batch =
     (if shard_position < length y_shard_data \<and> y_batch_size < batch_size then
        let target_size = nat (batch_size - y_batch_size);
            x_sliced = (if return_x
                        then take target_size (drop shard_position x_shard_data) else []);
            y_sliced = take target_size (drop shard_position y_shard_data);
            sliced = (if \<not> disable_transform s
                      then bt s return_x return_y x_sliced y_sliced
                      else (x_sliced, y_sliced));
            shard_position' = shard_position + target_size;
            samples_read = (if return_y then length (snd sliced) else length (fst sliced));
            y_batch_size' = y_batch_size + int samples_read;
            x_batch' = (if return_x then x_batch @ fst sliced else []);
            y_batch' = (if return_y then y_batch @ snd sliced else [])
        in if y_batch_size' \<ge> batch_size
              \<or> (shard_position' \<ge> length y_shard_data
                  \<and> shard_id + 1 = get_num_shards s
                  \<and> \<not> drop_remainder)
           then let rest = shard_loop bt s batch_size return_x return_y drop_remainder
                             shard_id x_shard_data y_shard_data shard_position' 0 [] []
                in ((x_batch', y_batch') # fst rest, snd rest)
           else shard_loop bt s batch_size return_x return_y drop_remainder
                  shard_id x_shard_data y_shard_data shard_position'
                  y_batch_size' x_batch' y_batch'
      else ([], y_batch_size, x_batch, y_batch))"
  by pat_completeness auto
termination
  apply (relation "measure (\<lambda>(bt, s, batch_size, return_x, return_y, drop_remainder, shard_id,
        x_shard_data, y_shard_data, shard_position, y_batch_size, x_batch, y_batch).
        length y_shard_data - shard_position)")
    apply simp
  subgoal premises p using p(1,2,6) by (simp, linarith)
  subgoal premises p using p(1,2,6) by (simp, linarith)
  done

declare shard_loop.simps [simp del]

text \<open>
  The \<^verbatim>\<open>for\<close> loop over \<^verbatim>\<open>range(self.get_num_shards())\<close>. A shard that cannot
  be read ends the generator with the error; the batches yielded before it stay yielded.
\<close>

fun shards_loop ::
  "transform \<Rightarrow> dataset \<Rightarrow> int \<Rightarrow> bool \<Rightarrow> bool \<Rightarrow> bool \<Rightarrow> nat list
    \<Rightarrow> int \<Rightarrow> real list list \<Rightarrow> real list \<Rightarrow> batch list \<times> error option" where
  "shards_loop bt s batch_size return_x return_y drop_remainder [] 
       y_batch_size x_batch y_batch = ([], None)"
| "shards_loop bt s batch_size return_x return_y drop_remainder (shard_id # shard_ids)
       y_batch_size x_batch y_batch =
     (case (if return_x then get_shard_x s (int shard_id) else Inr []) of
        Inl e \<Rightarrow> ([], Some e)
      | Inr x_shard_data \<Rightarrow>
         (case get_shard_y s (int shard_id) of
            Inl e \<Rightarrow> ([], Some e)
          | Inr y_shard_data \<Rightarrow>
             (case shard_loop bt s batch_size return_x return_y drop_remainder shard_id
                     x_shard_data y_shard_data 0 y_batch_size x_batch y_batch of
                (yielded, y_batch_size', x_batch', y_batch') \<Rightarrow>
                  (case shards_loop bt s batch_size return_x return_y drop_remainder
                          shard_ids y_batch_size' x_batch' y_batch' of
                     (later, raised) \<Rightarrow> (yielded @ later, raised)))))"

text \<open>
  The generator, run to its end: the batches it yields, in order, and the error that ends
  it, if one does. The argument check is the first statement of the generator body.
\<close>

definition iterate_batches ::
  "transform \<Rightarrow> dataset \<Rightarrow> int \<Rightarrow> bool \<Rightarrow> bool \<Rightarrow> bool \<Rightarrow> batch list \<times> error option" where
  "iterate_batches bt s batch_size return_x return_y drop_remainder =
     (if batch_size < 1 \<or> (\<not> return_x \<and> \<not> return_y) then ([], Some InvalidArgument)
      else shards_loop bt s batch_size return_x return_y drop_remainder
             [0..<get_num_shards s] 0 [] [])"

text \<open>
  The rows that a dataset stores, shard after shard and row after row, and the spec's
  invariant of a shard set: the shards are paired index for index, and an x-shard has as
  many rows as its y-shard.
\<close>

definition stored_x :: "dataset \<Rightarrow> real list list" where
  "stored_x s = concat (take (get_num_shards s) (x_shards s))"

definition stored_y :: "dataset \<Rightarrow> real list" where
  "stored_y s = concat (take (get_num_shards s) (y_shards s))"

definition paired :: "dataset \<Rightarrow> bool" where
  "paired s \<longleftrightarrow>
     get_num_shards s \<le> length (x_shards s) \<and> get_num_shards s \<le> length (y_shards s)
     \<and> list_all (\<lambda>i. length (x_shards s ! i) = length (y_shards s ! i))
          [0..<get_num_shards s]"

text \<open>
  What the loop body appends to the two buffers for the slice \<open>(x, y)\<close> of a shard:
  the slice as the transform returns it, or as it is when the transform is disabled,
  and nothing for a channel that is not requested.
\<close>

definition appended ::
  "transform \<Rightarrow> dataset \<Rightarrow> bool \<Rightarrow> bool \<Rightarrow> real list list \<Rightarrow> real list
    \<Rightarrow> real list list \<times> real list" where
  "appended bt s return_x return_y x y =
     (let x_sliced = (if return_x then x else []);
          sliced = (if \<not> disable_transform s then bt s return_x return_y x_sliced y
                    else (x_sliced, y))
      in (if return_x then fst sliced else [], if return_y then snd sliced else []))"

subsection \<open>The batch transform\<close>

text \<open>
  The formulas \<open>(x - x_mean) / x_std\<close> and \<open>(y - y_mean) / y_std\<close> of the spec's
  transform contract, row by row. Where a statistic is unset or NaN the formula has no
  value and the rows are left as they are.
\<close>

fun broadcast :: "(real \<Rightarrow> real \<Rightarrow> real) \<Rightarrow> stat \<Rightarrow> real list \<Rightarrow> real list" where
  \<comment> \<open>one row combined with a statistic, entry by entry\<close>
  "broadcast f (Scalar a) row = map (\<lambda>v. f v a) row"
| "broadcast f (Row m) row = map2 f row m"
| "broadcast f NaN row = row"

definition standardize :: "stat option \<Rightarrow> stat option \<Rightarrow> real list list \<Rightarrow> real list list" where
  "standardize mean standard_dev rows =
     (case (mean, standard_dev) of
        (Some m, Some sd) \<Rightarrow>
          map (\<lambda>row. broadcast (\<lambda>v d. v / d) sd (broadcast (\<lambda>v a. v - a) m row)) rows
      | _ \<Rightarrow> rows)"

definition in_range :: "dataset \<Rightarrow> real \<Rightarrow> bool" where
  "in_range s v = (bound_ge (dataset_max_output s) v \<and> bound_le (dataset_min_output s) v)"

text \<open>
  Modelled from the spec: \<^verbatim>\<open>batch_transform\<close> is abstract in \<^verbatim>\<open>DatasetBuilder\<close>
  and the subclasses that implement it are not under src/. The spec's transform contract:
  rows whose y falls outside \<open>[min_output, max_output]\<close> are dropped, then the surviving
  rows are normalized with the cached statistics when the flag of their channel is set.
\<close>

definition batch_transform :: transform where
  "batch_transform s return_x return_y x_batch y_batch =
     (let x_kept = (if return_x
                    then map fst (filter (\<lambda>(x, y). in_range s y) (zip x_batch y_batch))
                    else []);
          y_kept = filter (in_range s) y_batch;
          x_out = (if is_normalized_x s \<and> return_x
                   then standardize (x_mean s) (x_standard_dev s) x_kept else x_kept);
          y_out = (if is_normalized_y s \<and> return_y
                   then concat (standardize (y_mean s) (y_standard_dev s)
                                  (map (\<lambda>v. [v]) y_kept))
                   else y_kept)
      in (x_out, y_out))"

subsection \<open>Normalization statistics\<close>

fun stat_map :: "(real \<Rightarrow> real) \<Rightarrow> stat \<Rightarrow> stat" where
  "stat_map f (Scalar a) = Scalar (f a)"
| "stat_map f (Row m) = Row (map f m)"
| "stat_map f NaN = NaN"

fun stat_add :: "stat \<Rightarrow> stat \<Rightarrow> stat" where
  "stat_add NaN t = NaN"
| "stat_add t NaN = NaN"
| "stat_add (Scalar a) (Scalar b) = Scalar (a + b)"
| "stat_add (Scalar a) (Row m) = Row (map (\<lambda>v. a + v) m)"
| "stat_add (Row m) (Scalar b) = Row (map (\<lambda>v. v + b) m)"
| "stat_add (Row m) (Row m') = Row (map2 (+) m m')"

text \<open>
  \<^verbatim>\<open>np.sum(batch, axis=0, keepdims=True)\<close>. A batch without rows sums to a row of
  zeros, which adds to a running statistic as the scalar zero does.
\<close>

fun column_sum :: "real list list \<Rightarrow> stat" where
  "column_sum [] = Scalar 0"
| "column_sum (row # rows) = Row (foldl (map2 (+)) row rows)"

text \<open>\<^verbatim>\<open>np.sum(np.square(batch - mean), axis=0, keepdims=True)\<close>\<close>

fun square_deviation_sum :: "stat \<Rightarrow> real list list \<Rightarrow> stat" where
  "square_deviation_sum NaN rows = (if rows = [] then Scalar 0 else NaN)"
| "square_deviation_sum mean rows =
     column_sum (map (broadcast (\<lambda>v a. (v - a)\<^sup>2) mean) rows)"

text \<open>
  One step of a running statistic:
  \<^verbatim>\<open>acc * (samples / (samples + batch_size)) + summed / (samples + batch_size)\<close>.
  With no sample so far and none in the batch both quotients are 0/0.
\<close>

definition running_step :: "stat \<Rightarrow> real \<Rightarrow> stat \<Rightarrow> real \<Rightarrow> stat" where
  "running_step acc samples summed batch_size =
     (if samples + batch_size = 0 then NaN
      else stat_add (stat_map (\<lambda>v. v * (samples / (samples + batch_size))) acc)
                    (stat_map (\<lambda>v. v / (samples + batch_size)) summed))"

primrec running :: "(real list list \<Rightarrow> stat) \<Rightarrow> real list list list \<Rightarrow> stat \<Rightarrow> real \<Rightarrow> stat" where
  "running summed [] acc samples = acc"
| "running summed (batch # batches) acc samples =
     running summed batches
       (running_step acc samples (summed batch) (real (length batch)))
       (samples + real (length batch))"

definition protect :: "stat \<Rightarrow> stat" where
  \<comment> \<open>\<^verbatim>\<open>np.where(standard_dev == 0.0, 1.0, standard_dev)\<close>\<close>
  "protect sd = stat_map (\<lambda>v. if v = 0 then 1 else v) sd"

fun nonzero :: "stat \<Rightarrow> bool" where
  \<comment> \<open>no entry of the statistic is zero\<close>
  "nonzero (Scalar a) = (a \<noteq> 0)"
| "nonzero (Row m) = (0 \<notin> set m)"
| "nonzero NaN = True"

definition update_x_statistics :: "transform \<Rightarrow> dataset \<Rightarrow> outcome" where
  "update_x_statistics bt s =
     (if freeze_statistics s then Inl (FrozenStatisticsError, s)
      else
        let original_is_normalized_x = is_normalized_x s;
            s1 = s\<lparr>is_normalized_x := False\<rparr>
        in case iterate_batches bt s1 (internal_batch_size s1) True False False of
             (first_pass, Some e) \<Rightarrow> Inl (e, s1)
           | (first_pass, None) \<Rightarrow>
               let mean = running column_sum (map fst first_pass) (Scalar 0) 0
               in case iterate_batches bt s1 (internal_batch_size s1) True False False of
                    (second_pass, Some e) \<Rightarrow> Inl (e, s1)
                  | (second_pass, None) \<Rightarrow>
                      let variance = running (square_deviation_sum mean)
                                       (map fst second_pass) (Scalar 0) 0;
                          s2 = s1\<lparr>x_mean := Some mean,
                                  x_standard_dev := Some (protect (stat_map sqrt variance))\<rparr>
                      in Inr (s2\<lparr>is_normalized_x := original_is_normalized_x\<rparr>))"

definition update_y_statistics :: "transform \<Rightarrow> dataset \<Rightarrow> outcome" where
  "update_y_statistics bt s =
     (if freeze_statistics s then Inl (FrozenStatisticsError, s)
      else
        let original_is_normalized_y = is_normalized_y s;
            s1 = s\<lparr>is_normalized_y := False\<rparr>
        in case iterate_batches bt s1 (internal_batch_size s1) False True False of
             (first_pass, Some e) \<Rightarrow> Inl (e, s1)
           | (first_pass, None) \<Rightarrow>
               let mean = running column_sum
                            (map (\<lambda>b. map (\<lambda>v. [v]) (snd b)) first_pass) (Scalar 0) 0
               in case iterate_batches bt s1 (internal_batch_size s1) False True False of
                    (second_pass, Some e) \<Rightarrow> Inl (e, s1)
                  | (second_pass, None) \<Rightarrow>
                      let variance = running (square_deviation_sum mean)
                                       (map (\<lambda>b. map (\<lambda>v. [v]) (snd b)) second_pass)
                                       (Scalar 0) 0;
                          s2 = s1\<lparr>y_mean := Some mean,
                                  y_standard_dev := Some (protect (stat_map sqrt variance))\<rparr>
                      in Inr (s2\<lparr>is_normalized_y := original_is_normalized_y\<rparr>))"

subsection \<open>Filtering by percentile\<close>

text \<open>
  \<^verbatim>\<open>np.percentile\<close> is the parameter \<open>pct\<close>; it raises for a percentile outside
  [0, 100]. The arguments of \<open>subsample\<close> come in the order of the source,
  \<^verbatim>\<open>max_percentile\<close> first.
\<close>

type_synonym percentile = "real list \<Rightarrow> real \<Rightarrow> error + real"

definition y_property :: "transform \<Rightarrow> dataset \<Rightarrow> error + real list" where
  \<comment> \<open>the property \<^verbatim>\<open>self.y\<close>: \<^verbatim>\<open>np.concatenate\<close> raises when no batch was yielded\<close>
  "y_property bt s =
     (case iterate_batches bt s (internal_batch_size s) False True False of
        (batches, Some e) \<Rightarrow> Inl e
      | (batches, None) \<Rightarrow>
          if batches = [] then Inl PyValueError else Inr (concat (map snd batches)))"

definition subsample :: "transform \<Rightarrow> percentile \<Rightarrow> dataset \<Rightarrow> real \<Rightarrow> real \<Rightarrow> outcome" where
  "subsample bt pct s max_percentile min_percentile =
     (if freeze_statistics s then Inl (FrozenStatisticsError, s)
      else if min_percentile > max_percentile then Inl (InvalidArgument, s)
      else
        let s1 = s\<lparr>disable_transform := True\<rparr>
        in case y_property bt s1 of
             Inl e \<Rightarrow> Inl (e, s1)
           | Inr y \<Rightarrow>
              let s2 = s1\<lparr>disable_transform := False\<rparr>
              in case (if min_percentile > 0 then map_sum id Fin (pct y min_percentile)
                       else Inr NINF) of
                   Inl e \<Rightarrow> Inl (e, s2)
                 | Inr min_output \<Rightarrow>
                    let s3 = s2\<lparr>dataset_min_percentile := min_percentile,
                                dataset_min_output := min_output\<rparr>
                    in case (if max_percentile < 100
                             then map_sum id Fin (pct y max_percentile) else Inr PINF) of
                         Inl e \<Rightarrow> Inl (e, s3)
                       | Inr max_output \<Rightarrow>
                          let s4 = s3\<lparr>dataset_max_percentile := max_percentile,
                                      dataset_max_output := max_output\<rparr>;
                              s5 = s4\<lparr>dataset_size :=
                                        length (filter (\<lambda>v. bound_ge max_output v
                                                          \<and> bound_le min_output v) y)\<rparr>
                          in case (if is_normalized_x s5 then update_x_statistics bt s5
                                   else Inr s5) of
                               Inl failed \<Rightarrow> Inl failed
                             | Inr s6 \<Rightarrow>
                                 if is_normalized_y s6 then update_y_statistics bt s6
                                 else Inr s6)"

subsection \<open>Normalizing the dataset and single arrays\<close>

definition map_normalize_x :: "transform \<Rightarrow> dataset \<Rightarrow> outcome" where
  "map_normalize_x bt s =
     (if freeze_statistics s then Inl (FrozenStatisticsError, s)
      else update_x_statistics bt
             (if \<not> is_normalized_x s then s\<lparr>is_normalized_x := True\<rparr> else s))"

definition map_normalize_y :: "transform \<Rightarrow> dataset \<Rightarrow> outcome" where
  "map_normalize_y bt s =
     (if freeze_statistics s then Inl (FrozenStatisticsError, s)
      else update_y_statistics bt
             (if \<not> is_normalized_y s then s\<lparr>is_normalized_y := True\<rparr> else s))"

definition map_denormalize_x :: "dataset \<Rightarrow> outcome" where
  "map_denormalize_x s =
     (if freeze_statistics s then Inl (FrozenStatisticsError, s)
      else Inr (if is_normalized_x s then s\<lparr>is_normalized_x := False\<rparr> else s))"

definition map_denormalize_y :: "dataset \<Rightarrow> outcome" where
  "map_denormalize_y s =
     (if freeze_statistics s then Inl (FrozenStatisticsError, s)
      else Inr (if is_normalized_y s then s\<lparr>is_normalized_y := False\<rparr> else s))"

text \<open>
  An entry of an array that is given to, or returned by, the four array methods: a
  number, an infinity or NaN. The four operations are those of numpy between an entry
  and a number of a statistic; a number divided by zero is an infinity, zero divided by
  zero and an infinity times zero are NaN. Signed zeros and overflow are not modelled.
\<close>

datatype entry = Finite real | PlusInfinity | MinusInfinity | NotANumber

fun entry_minus :: "entry \<Rightarrow> real \<Rightarrow> entry" where
  "entry_minus (Finite v) a = Finite (v - a)"
| "entry_minus e a = e"

fun entry_plus :: "entry \<Rightarrow> real \<Rightarrow> entry" where
  "entry_plus (Finite v) a = Finite (v + a)"
| "entry_plus e a = e"

fun entry_times :: "entry \<Rightarrow> real \<Rightarrow> entry" where
  "entry_times (Finite v) d = Finite (v * d)"
| "entry_times PlusInfinity d =
     (if 0 < d then PlusInfinity else if d < 0 then MinusInfinity else NotANumber)"
| "entry_times MinusInfinity d =
     (if 0 < d then MinusInfinity else if d < 0 then PlusInfinity else NotANumber)"
| "entry_times NotANumber d = NotANumber"

fun entry_divide :: "entry \<Rightarrow> real \<Rightarrow> entry" where
  "entry_divide (Finite v) d =
     (if d \<noteq> 0 then Finite (v / d)
      else if 0 < v then PlusInfinity else if v < 0 then MinusInfinity else NotANumber)"
| "entry_divide PlusInfinity d = (if d < 0 then MinusInfinity else PlusInfinity)"
| "entry_divide MinusInfinity d = (if d < 0 then PlusInfinity else MinusInfinity)"
| "entry_divide NotANumber d = NotANumber"

text \<open>
  An array combined with a cached statistic, as in \<^verbatim>\<open>x - self.x_mean\<close>. The array
  is a list of rows. Numpy broadcasts the two shapes: against a statistic of shape
  [1, d] a row of d entries is combined entry by entry; where the statistic has one entry
  it is combined with every entry of the row, and where the row has one entry that entry
  is combined with every entry of the statistic, which gives a row of d entries; other
  widths raise. The statistic NaN turns every entry into NaN; the model does not record
  its width, and the result has the shape of the array, as it has for an array of
  designs. An array without rows has no width here and is returned as it is.
\<close>

definition stretch :: "(entry \<Rightarrow> real \<Rightarrow> entry) \<Rightarrow> real list \<Rightarrow> entry list \<Rightarrow> entry list" where
  "stretch f m row =
     (if length row = length m then map2 f row m
      else case m of
             [a] \<Rightarrow> map (\<lambda>v. f v a) row
           | _ \<Rightarrow> (case row of [v] \<Rightarrow> map (f v) m | _ \<Rightarrow> row))"

fun elementwise ::
  "(entry \<Rightarrow> real \<Rightarrow> entry) \<Rightarrow> entry list list \<Rightarrow> stat \<Rightarrow> error + entry list list" where
  "elementwise f x (Scalar a) = Inr (map (map (\<lambda>v. f v a)) x)"
| "elementwise f x (Row m) =
     (if list_all (\<lambda>row. length row = length m \<or> length m = 1 \<or> length row = 1) x
      then Inr (map (stretch f m) x) else Inl PyValueError)"
| "elementwise f x NaN = Inr (map (map (\<lambda>v. NotANumber)) x)"

text \<open>
  A width fits a statistic when combining a row of that width with the statistic keeps
  the width: the statistic is a scalar, or has that width, or has one entry.
\<close>

fun fits :: "stat \<Rightarrow> nat \<Rightarrow> bool" where
  "fits (Scalar a) n = True"
| "fits (Row m) n = (n = length m \<or> length m = 1)"
| "fits NaN n = False"

text \<open>
  The numbers of a statistic that meet the entries of a row of a fitting width \<open>n\<close>,
  one for each entry.
\<close>

fun aligned :: "stat \<Rightarrow> nat \<Rightarrow> real list" where
  "aligned (Scalar a) n = replicate n a"
| "aligned (Row m) n = (if length m = n then m else case m of [a] \<Rightarrow> replicate n a | _ \<Rightarrow> m)"
| "aligned NaN n = []"

text \<open>
  The numbers that \<^verbatim>\<open>(x - mean) / standard_dev\<close> computes for a row \<open>r\<close> of
  numbers whose width fits both statistics.
\<close>

definition standardized :: "stat \<Rightarrow> stat \<Rightarrow> real list \<Rightarrow> real list" where
  "standardized m sd r =
     map2 (\<lambda>v d. v / d) (map2 (\<lambda>v a. v - a) r (aligned m (length r))) (aligned sd (length r))"

definition x_statistics ::
  "transform \<Rightarrow> dataset \<Rightarrow> (error \<times> dataset) + ((stat \<times> stat) \<times> dataset)" where
  \<comment> \<open>the cached mean and standard deviation of x, computed first where one is \<^verbatim>\<open>None\<close>\<close>
  "x_statistics bt s =
     (case (x_mean s, x_standard_dev s) of
        (Some m, Some sd) \<Rightarrow> Inr ((m, sd), s)
      | _ \<Rightarrow>
         (case update_x_statistics bt s of
            Inl failed \<Rightarrow> Inl failed
          | Inr s' \<Rightarrow>
             (case (x_mean s', x_standard_dev s') of
                (Some m, Some sd) \<Rightarrow> Inr ((m, sd), s')
              | _ \<Rightarrow> Inl (PyTypeError, s'))))"

definition y_statistics ::
  "transform \<Rightarrow> dataset \<Rightarrow> (error \<times> dataset) + ((stat \<times> stat) \<times> dataset)" where
  "y_statistics bt s =
     (case (y_mean s, y_standard_dev s) of
        (Some m, Some sd) \<Rightarrow> Inr ((m, sd), s)
      | _ \<Rightarrow>
         (case update_y_statistics bt s of
            Inl failed \<Rightarrow> Inl failed
          | Inr s' \<Rightarrow>
             (case (y_mean s', y_standard_dev s') of
                (Some m, Some sd) \<Rightarrow> Inr ((m, sd), s')
              | _ \<Rightarrow> Inl (PyTypeError, s'))))"

definition normalize_with :: "stat \<times> stat \<Rightarrow> entry list list \<Rightarrow> error + entry list list" where
  \<comment> \<open>\<^verbatim>\<open>(x - mean) / standard_dev\<close>\<close>
  "normalize_with st x =
     (case elementwise entry_minus x (fst st) of
        Inl e \<Rightarrow> Inl e
      | Inr centred \<Rightarrow> elementwise entry_divide centred (snd st))"

definition denormalize_with :: "stat \<times> stat \<Rightarrow> entry list list \<Rightarrow> error + entry list list" where
  \<comment> \<open>\<^verbatim>\<open>x * standard_dev + mean\<close>\<close>
  "denormalize_with st x =
     (case elementwise entry_times x (snd st) of
        Inl e \<Rightarrow> Inl e
      | Inr scaled \<Rightarrow> elementwise entry_plus scaled (fst st))"

definition normalize_x ::
  "transform \<Rightarrow> dataset \<Rightarrow> entry list list
    \<Rightarrow> (error \<times> dataset) + (entry list list \<times> dataset)" where
  "normalize_x bt s x =
     (case x_statistics bt s of
        Inl failed \<Rightarrow> Inl failed
      | Inr (st, s') \<Rightarrow>
         (case normalize_with st x of Inl e \<Rightarrow> Inl (e, s') | Inr x' \<Rightarrow> Inr (x', s')))"

definition denormalize_x ::
  "transform \<Rightarrow> dataset \<Rightarrow> entry list list
    \<Rightarrow> (error \<times> dataset) + (entry list list \<times> dataset)" where
  "denormalize_x bt s x =
     (case x_statistics bt s of
        Inl failed \<Rightarrow> Inl failed
      | Inr (st, s') \<Rightarrow>
         (case denormalize_with st x of Inl e \<Rightarrow> Inl (e, s') | Inr x' \<Rightarrow> Inr (x', s')))"

definition normalize_y ::
  "transform \<Rightarrow> dataset \<Rightarrow> entry list list
    \<Rightarrow> (error \<times> dataset) + (entry list list \<times> dataset)" where
  "normalize_y bt s y =
     (case y_statistics bt s of
        Inl failed \<Rightarrow> Inl failed
      | Inr (st, s') \<Rightarrow>
         (case normalize_with st y of Inl e \<Rightarrow> Inl (e, s') | Inr y' \<Rightarrow> Inr (y', s')))"

definition denormalize_y ::
  "transform \<Rightarrow> dataset \<Rightarrow> entry list list
    \<Rightarrow> (error \<times> dataset) + (entry list list \<times> dataset)" where
  "denormalize_y bt s y =
     (case y_statistics bt s of
        Inl failed \<Rightarrow> Inl failed
      | Inr (st, s') \<Rightarrow>
         (case denormalize_with st y of Inl e \<Rightarrow> Inl (e, s') | Inr y' \<Rightarrow> Inr (y', s')))"

subsection \<open>Loops over the generator that change the dataset\<close>

text \<open>
  A \<^verbatim>\<open>for\<close> loop over \<^verbatim>\<open>iterate_batches\<close> runs its body between two steps of
  the generator, and the generator reads the builder again whenever it goes on: it loads
  each shard when it reaches it. \<open>for_batches\<close> is such a loop. The body takes the
  loop's own variables \<open>c\<close>, the builder and the batch, and returns the variables and
  the builder, or raises. \<open>for_shard\<close> and \<open>for_shards\<close> are \<open>shard_loop\<close> and
  \<open>shards_loop\<close> with the body run at every \<^verbatim>\<open>yield\<close>.
\<close>

type_synonym 'c body = "'c \<Rightarrow> dataset \<Rightarrow> batch \<Rightarrow> (error \<times> dataset) + ('c \<times> dataset)"

function for_shard ::
  "transform \<Rightarrow> 'c body \<Rightarrow> int \<Rightarrow> bool \<Rightarrow> bool \<Rightarrow> bool \<Rightarrow> nat
    \<Rightarrow> real list list \<Rightarrow> real list \<Rightarrow> nat \<Rightarrow> int \<Rightarrow> real list list \<Rightarrow> real list
    \<Rightarrow> 'c \<Rightarrow> dataset
    \<Rightarrow> (error \<times> dataset) + (int \<times> real list list \<times> real list \<times> 'c \<times> dataset)" where
  "for_shard bt body batch_size return_x return_y drop_remainder shard_id
       x_shard_data y_shard_data shard_position y_batch_size x_batch y_batch c s =
     (if shard_position < length y_shard_data \<and> y_batch_size < batch_size then
        let target_size = nat (batch_size - y_batch_size);
            x_sliced = (if return_x
                        then take target_size (drop shard_position x_shard_data) else []);
            y_sliced = take target_size (drop shard_position y_shard_data);
            sliced = (if \<not> disable_transform s
                      then bt s return_x return_y x_sliced y_sliced
                      else (x_sliced, y_sliced));
            shard_position' = shard_position + target_size;
            samples_read = (if return_y then length (snd sliced) else length (fst sliced));
            y_batch_size' = y_batch_size + int samples_read;
            x_batch' = (if return_x then x_batch @ fst sliced else []);
            y_batch' = (if return_y then y_batch @ snd sliced else [])
        in if y_batch_size' \<ge> batch_size
              \<or> (shard_position' \<ge> length y_shard_data
                  \<and> shard_id + 1 = get_num_shards s
                  \<and> \<not> drop_remainder)
           then (case body c s (x_batch', y_batch') of
                   Inl failed \<Rightarrow> Inl failed
                 | Inr (c', s') \<Rightarrow>
                     for_shard bt body batch_size return_x return_y drop_remainder
                       shard_id x_shard_data y_shard_data shard_position' 0 [] [] c' s')
           else for_shard bt body batch_size return_x return_y drop_remainder
                  shard_id x_shard_data y_shard_data shard_position'
                  y_batch_size' x_batch' y_batch' c s
      else Inr (y_batch_size, x_batch, y_batch, c, s))"
  by pat_completeness auto
termination
  apply (relation "measure (\<lambda>(bt, body, batch_size, return_x, return_y, drop_remainder,
        shard_id, x_shard_data, y_shard_data, shard_position, y_batch_size, x_batch,
        y_batch, c, s). length y_shard_data - shard_position)")
    apply simp
  subgoal premises p using p(1,2,6) by (simp, linarith)
  subgoal premises p using p(1,2,6) by (simp, linarith)
  done

declare for_shard.simps [simp del]

fun for_shards ::
  "transform \<Rightarrow> 'c body \<Rightarrow> int \<Rightarrow> bool \<Rightarrow> bool \<Rightarrow> bool \<Rightarrow> nat list
    \<Rightarrow> int \<Rightarrow> real list list \<Rightarrow> real list \<Rightarrow> 'c \<Rightarrow> dataset
    \<Rightarrow> (error \<times> dataset) + ('c \<times> dataset)" where
  "for_shards bt body batch_size return_x return_y drop_remainder []
       y_batch_size x_batch y_batch c s = Inr (c, s)"
| "for_shards bt body batch_size return_x return_y drop_remainder (shard_id # shard_ids)
       y_batch_size x_batch y_batch c s =
     (case (if return_x then get_shard_x s (int shard_id) else Inr []) of
        Inl e \<Rightarrow> Inl (e, s)
      | Inr x_shard_data \<Rightarrow>
         (case get_shard_y s (int shard_id) of
            Inl e \<Rightarrow> Inl (e, s)
          | Inr y_shard_data \<Rightarrow>
             (case for_shard bt body batch_size return_x return_y drop_remainder shard_id
                     x_shard_data y_shard_data 0 y_batch_size x_batch y_batch c s of
                Inl failed \<Rightarrow> Inl failed
              | Inr (y_batch_size', x_batch', y_batch', c', s') \<Rightarrow>
                  for_shards bt body batch_size return_x return_y drop_remainder
                    shard_ids y_batch_size' x_batch' y_batch' c' s')))"

definition for_batches ::
  "transform \<Rightarrow> 'c body \<Rightarrow> int \<Rightarrow> bool \<Rightarrow> bool \<Rightarrow> bool \<Rightarrow> 'c \<Rightarrow> dataset
    \<Rightarrow> (error \<times> dataset) + ('c \<times> dataset)" where
  "for_batches bt body batch_size return_x return_y drop_remainder c s =
     (if batch_size < 1 \<or> (\<not> return_x \<and> \<not> return_y) then Inl (InvalidArgument, s)
      else for_shards bt body batch_size return_x return_y drop_remainder
             [0..<get_num_shards s] 0 [] [] c s)"


subsection \<open>Relabelling\<close>

text \<open>
  The inner \<^verbatim>\<open>while\<close> loop of \<^verbatim>\<open>relabel\<close>, which packs one relabelled batch into
  the shards. Its variables are \<^verbatim>\<open>read_position\<close> and, kept from batch to batch,
  \<^verbatim>\<open>examples_processed\<close>, \<^verbatim>\<open>y_shard\<close> (the rows of its slices),
  \<^verbatim>\<open>shard_id\<close> and \<^verbatim>\<open>shard_size\<close>; \<^verbatim>\<open>y_shard_size\<close> is the length of
  \<open>y_shard\<close>, which never exceeds \<open>shard_size\<close>. When the shard has no room, all
  examples are processed and rows are left in the batch, an iteration changes nothing and
  the source loops for ever.
\<close>

function relabel_while ::
  "nat \<Rightarrow> real list \<Rightarrow> nat \<Rightarrow> nat \<times> real list \<times> nat \<times> nat \<Rightarrow> dataset
    \<Rightarrow> (error \<times> dataset) + ((nat \<times> real list \<times> nat \<times> nat) \<times> dataset)" where
  "relabel_while examples y_batch read_position
       (examples_processed, y_shard, shard_id, shard_size) s =
     (if read_position < length y_batch then
        let target_size = shard_size - length y_shard;
            y_slice = take target_size (drop read_position y_batch);
            samples_read = length y_slice;
            read_position' = read_position + target_size;
            examples_processed' = examples_processed + samples_read;
            y_shard' = y_shard @ y_slice
        in if length y_shard' \<ge> shard_size \<or> examples_processed' \<ge> examples
           then (case set_shard_y s (int shard_id) y_shard' of
                   Inl failed \<Rightarrow> Inl failed
                 | Inr s' \<Rightarrow>
                     if \<not> examples_processed' \<ge> examples
                     then (case get_shard_y s' (int (shard_id + 1)) of
                             Inl e \<Rightarrow> Inl (e, s')
                           | Inr shard \<Rightarrow>
                               relabel_while examples y_batch read_position'
                                 (examples_processed', [], shard_id + 1, length shard) s')
                     else if target_size = 0 then Inl (Diverges, s')
                     else relabel_while examples y_batch read_position'
                            (examples_processed', [], shard_id, shard_size) s')
           else relabel_while examples y_batch read_position'
                  (examples_processed', y_shard', shard_id, shard_size) s
      else Inr ((examples_processed, y_shard, shard_id, shard_size), s))"
  by pat_completeness auto
termination
  apply (relation "measure (\<lambda>(examples, y_batch, read_position,
        (examples_processed, y_shard, shard_id, shard_size), s).
        (length y_batch - read_position) + (get_num_shards s - shard_id))")
     apply simp
  subgoal premises p
    using p(1,5,9,11)
    by (auto simp: get_shard_y_def set_shard_y_def get_num_shards_def
             split: if_splits sum.splits)
  subgoal premises p
    using p(1,2,5,9,11)
    by (auto simp: set_shard_y_def get_num_shards_def split: if_splits sum.splits)
  subgoal premises p
    using p(1,2,5,7,8)
    by auto
  done

declare relabel_while.simps [simp del]

text \<open>
  \<open>relabel_function\<close> is the caller's function from a batch of designs and predictions
  to new predictions.
\<close>

definition relabel ::
  "transform \<Rightarrow> percentile \<Rightarrow> (real list list \<Rightarrow> real list \<Rightarrow> real list) \<Rightarrow> dataset \<Rightarrow> outcome" where
  "relabel bt pct relabel_function s =
     (if freeze_statistics s then Inl (FrozenStatisticsError, s)
      else
        let s1 = s\<lparr>disable_transform := True\<rparr>
        in case y_property bt s1 of
             Inl e \<Rightarrow> Inl (e, s1)
           | Inr y \<Rightarrow>
              let examples = length y
              in case get_shard_y s1 0 of
                   Inl e \<Rightarrow> Inl (e, s1)
                 | Inr shard \<Rightarrow>
                    (case for_batches bt
                            (\<lambda>c s' (x_batch, y_batch).
                               relabel_while examples (relabel_function x_batch y_batch) 0 c s')
                            (internal_batch_size s1) True True False
                            (0, [], 0, length shard) s1 of
                       Inl failed \<Rightarrow> Inl failed
                     | Inr (c, s2) \<Rightarrow>
                        let s3 = s2\<lparr>disable_transform := False\<rparr>
                        in subsample bt pct s3 (dataset_max_percentile s3)
                             (dataset_min_percentile s3)))"

subsection \<open>Single samples\<close>

text \<open>
  \<^verbatim>\<open>iterate_samples\<close> with both channels unpacks each batch into pairs, indexing both
  arrays up to the number of designs; a batch with fewer predictions than designs raises
  after its pairs.
\<close>

fun unpack ::
  "batch list \<Rightarrow> error option \<Rightarrow> (real list \<times> real) list \<times> error option" where
  "unpack [] raised = ([], raised)"
| "unpack ((x_batch, y_batch) # batches) raised =
     (if length y_batch < length x_batch then (zip x_batch y_batch, Some PyIndexError)
      else case unpack batches raised of
             (samples, raised') \<Rightarrow> (zip x_batch y_batch @ samples, raised'))"

definition iterate_samples ::
  "transform \<Rightarrow> dataset \<Rightarrow> (real list \<times> real) list \<times> error option" where
  "iterate_samples bt s =
     (case iterate_batches bt s (internal_batch_size s) True True False of
        (batches, raised) \<Rightarrow> unpack batches raised)"

subsection \<open>Construction\<close>

text \<open>
  The constructor, given two lists of shards. The first loop stops at its first sample,
  so an error that the generator would raise later is not seen; the second loop counts
  every sample. A prediction is one real, so the test of its shape cannot fail.
\<close>

definition blank :: "real list list list \<Rightarrow> real list list \<Rightarrow> int \<Rightarrow> dataset" where
  \<comment> \<open>the fields as the constructor sets them before its two loops\<close>
  "blank xs ys batch_size =
     \<lparr>x_shards = xs, y_shards = ys, num_shards = length (zip xs ys),
      dataset_min_percentile = 0, dataset_max_percentile = 100,
      dataset_min_output = NINF, dataset_max_output = PINF,
      internal_batch_size = batch_size,
      is_normalized_x = False, is_normalized_y = False,
      disable_transform = False, freeze_statistics = False,
      x_mean = None, y_mean = None,
      x_standard_dev = None, y_standard_dev = None,
      input_shape = None, input_size = None, dataset_size = 0\<rparr>"

definition init ::
  "transform \<Rightarrow> real list list list \<Rightarrow> real list list \<Rightarrow> int \<Rightarrow> error + dataset" where
  "init bt xs ys batch_size =
     (let s0 = blank xs ys batch_size
      in case iterate_batches bt s0 batch_size True False False of
           (x_batches, x_raised) \<Rightarrow>
             (case (concat (map fst x_batches), x_raised) of
                ([], Some e) \<Rightarrow> Inl e
              | (designs, _) \<Rightarrow>
                 let s1 = (case designs of
                             [] \<Rightarrow> s0
                           | x # _ \<Rightarrow> s0\<lparr>input_shape := Some [length x],
                                            input_size := Some (length x)\<rparr>)
                 in case iterate_batches bt s1 batch_size False True False of
                      (y_batches, Some e) \<Rightarrow> Inl e
                    | (y_batches, None) \<Rightarrow>
                        Inr (s1\<lparr>dataset_size := length (concat (map snd y_batches))\<rparr>)))"

subsection \<open>Splitting\<close>

text \<open>
  \<^verbatim>\<open>np.random.choice(n, size=k, replace=False)\<close> is the parameter \<open>choice\<close> and the
  abstract method \<^verbatim>\<open>rebuild_dataset\<close> the parameter \<open>rebuild\<close>. Shards are kept in
  memory (\<^verbatim>\<open>to_disk=False\<close>).
\<close>

type_synonym choice = "nat \<Rightarrow> int \<Rightarrow> error + nat list"

type_synonym rebuild = "dataset \<Rightarrow> real list list list \<Rightarrow> real list list \<Rightarrow> error + dataset"

definition py_int :: "real \<Rightarrow> int" where
  \<comment> \<open>\<^verbatim>\<open>int(r)\<close> rounds towards zero\<close>
  "py_int r = (if r \<ge> 0 then \<lfloor>r\<rfloor> else \<lceil>r\<rceil>)"

definition active_ids :: "dataset \<Rightarrow> real list \<Rightarrow> nat list" where
  "active_ids s original_y =
     filter (\<lambda>i. bound_le (dataset_min_output s) (original_y ! i)
                \<and> bound_ge (dataset_max_output s) (original_y ! i))
       [0..<length original_y]"

definition hidden_ids :: "dataset \<Rightarrow> real list \<Rightarrow> nat list" where
  "hidden_ids s original_y =
     filter (\<lambda>i. bound_gt (dataset_min_output s) (original_y ! i)
                \<and> bound_lt (dataset_max_output s) (original_y ! i))
       [0..<length original_y]"

definition select_ids :: "choice \<Rightarrow> real \<Rightarrow> nat list \<Rightarrow> error + nat list" where
  \<comment> \<open>\<^verbatim>\<open>ids[np.random.choice(ids.size, size=int(fraction * float(ids.size)),
      replace=False).tolist()]\<close>\<close>
  "select_ids choice fraction ids =
     (case choice (length ids) (py_int (fraction * real (length ids))) of
        Inl e \<Rightarrow> Inl e
      | Inr picked \<Rightarrow>
          if list_all (\<lambda>i. i < length ids) picked then Inr (map (\<lambda>i. ids ! i) picked)
          else Inl PyIndexError)"

record split_buffers =
  training_partial_shard_x :: "real list list"
  training_partial_shard_y :: "real list"
  training_x_shards :: "real list list list"
  training_y_shards :: "real list list"
  validation_partial_shard_x :: "real list list"
  validation_partial_shard_y :: "real list"
  validation_x_shards :: "real list list list"
  validation_y_shards :: "real list list"

definition write_validation :: "int \<Rightarrow> bool \<Rightarrow> split_buffers \<Rightarrow> error + split_buffers" where
  \<comment> \<open>\<^verbatim>\<open>np.stack\<close> of no rows raises\<close>
  "write_validation shard_size at_last b =
     (if (at_last \<and> length (validation_partial_shard_x b) > 0)
          \<or> int (length (validation_partial_shard_x b)) \<ge> shard_size
      then if validation_partial_shard_x b = [] \<or> validation_partial_shard_y b = []
           then Inl PyValueError
           else Inr (b\<lparr>validation_x_shards :=
                          validation_x_shards b @ [validation_partial_shard_x b],
                        validation_y_shards :=
                          validation_y_shards b @ [validation_partial_shard_y b],
                        validation_partial_shard_x := [],
                        validation_partial_shard_y := []\<rparr>)
      else Inr b)"

definition write_training :: "int \<Rightarrow> bool \<Rightarrow> split_buffers \<Rightarrow> error + split_buffers" where
  "write_training shard_size at_last b =
     (if (at_last \<and> length (training_partial_shard_x b) > 0)
          \<or> int (length (training_partial_shard_x b)) \<ge> shard_size
      then if training_partial_shard_x b = [] \<or> training_partial_shard_y b = []
           then Inl PyValueError
           else Inr (b\<lparr>training_x_shards :=
                          training_x_shards b @ [training_partial_shard_x b],
                        training_y_shards :=
                          training_y_shards b @ [training_partial_shard_y b],
                        training_partial_shard_x := [],
                        training_partial_shard_y := []\<rparr>)
      else Inr b)"

text \<open>
  The loop over the enumerated samples. It returns from inside, at the sample whose
  number is the size of \<^verbatim>\<open>original_y\<close>, with the buffers; \<open>None\<close> is the loop
  running out of samples before that.
\<close>

fun split_loop ::
  "int \<Rightarrow> nat \<Rightarrow> nat list \<Rightarrow> nat \<Rightarrow> (real list \<times> real) list \<Rightarrow> split_buffers
    \<Rightarrow> error + split_buffers option" where
  "split_loop shard_size original_size validation_ids sample_id [] b = Inr None"
| "split_loop shard_size original_size validation_ids sample_id ((x, y) # samples) b =
     (let b1 = (if sample_id \<in> set validation_ids
                then b\<lparr>validation_partial_shard_x := validation_partial_shard_x b @ [x],
                       validation_partial_shard_y := validation_partial_shard_y b @ [y]\<rparr>
                else b\<lparr>training_partial_shard_x := training_partial_shard_x b @ [x],
                       training_partial_shard_y := training_partial_shard_y b @ [y]\<rparr>);
          at_last = (sample_id + 1 = original_size)
      in case write_validation shard_size at_last b1 of
           Inl e \<Rightarrow> Inl e
         | Inr b2 \<Rightarrow>
            (case write_training shard_size at_last b2 of
               Inl e \<Rightarrow> Inl e
             | Inr b3 \<Rightarrow>
                 if at_last then Inr (Some b3)
                 else split_loop shard_size original_size validation_ids
                        (sample_id + 1) samples b3))"

definition split ::
  "transform \<Rightarrow> choice \<Rightarrow> rebuild \<Rightarrow> dataset \<Rightarrow> real \<Rightarrow> int
    \<Rightarrow> (error \<times> dataset) + ((dataset \<times> dataset) option \<times> dataset)" where
  "split bt choice rebuild s fraction shard_size =
     (let s1 = s\<lparr>disable_transform := True\<rparr>
      in case y_property bt s1 of
           Inl e \<Rightarrow> Inl (e, s1)
         | Inr original_y \<Rightarrow>
      (case select_ids choice fraction (active_ids s1 original_y) of
           Inl e \<Rightarrow> Inl (e, s1)
         | Inr active \<Rightarrow>
      (case select_ids choice fraction (hidden_ids s1 original_y) of
           Inl e \<Rightarrow> Inl (e, s1)
         | Inr hidden \<Rightarrow>
      (let validation_ids = active @ hidden;
           empty = \<lparr>training_partial_shard_x = [], training_partial_shard_y = [],
                    training_x_shards = [], training_y_shards = [],
                    validation_partial_shard_x = [], validation_partial_shard_y = [],
                    validation_x_shards = [], validation_y_shards = []\<rparr>
       in case iterate_samples bt s1 of
            (samples, raised) \<Rightarrow>
      (case split_loop shard_size (length original_y) validation_ids 0 samples empty of
           Inl e \<Rightarrow> Inl (e, s1)
         | Inr None \<Rightarrow> (case raised of Some e \<Rightarrow> Inl (e, s1) | None \<Rightarrow> Inr (None, s1))
         | Inr (Some b) \<Rightarrow>
            let s2 = s1\<lparr>disable_transform := False\<rparr>
            in if validation_x_shards b = [] \<or> validation_y_shards b = []
               then Inl (EmptySplitError, s2)
               else if training_x_shards b = [] \<or> training_y_shards b = []
               then Inl (EmptySplitError, s2)
               else (case rebuild s2 (training_x_shards b) (training_y_shards b) of
                       Inl e \<Rightarrow> Inl (e, s2)
                     | Inr dtraining \<Rightarrow>
                        (case rebuild s2 (validation_x_shards b) (validation_y_shards b) of
                           Inl e \<Rightarrow> Inl (e, s2)
                         | Inr dvalidation \<Rightarrow>
                             Inr (Some (dtraining\<lparr>freeze_statistics := True\<rparr>,
                                        dvalidation\<lparr>freeze_statistics := True\<rparr>),
                                  s2))))))))"

section \<open>Properties\<close>

subsection \<open>Shard access\<close>

lemmas shard_access_defs =
  get_num_shards_def get_shard_x_def get_shard_y_def set_shard_x_def set_shard_y_def
  py_index_def py_assign_def

lemma get_shard_x_out_of_range_iff:
  "get_shard_x s shard_id = Inl IndexOutOfRange
     \<longleftrightarrow> 0 < shard_id \<and> int (get_num_shards s) \<le> shard_id"
  by (simp add: get_shard_x_def py_index_def Let_def)

lemma get_shard_y_out_of_range_iff:
  "get_shard_y s shard_id = Inl IndexOutOfRange
     \<longleftrightarrow> 0 < shard_id \<and> int (get_num_shards s) \<le> shard_id"
  by (simp add: get_shard_y_def py_index_def Let_def)

lemma set_shard_failure_keeps_dataset:
  "set_shard_x s shard_id d = Inl (e, s') \<Longrightarrow> s' = s"
  "set_shard_y s shard_id d' = Inl (e, s') \<Longrightarrow> s' = s"
  by (auto simp: set_shard_x_def set_shard_y_def split: if_splits sum.splits)

lemma get_shard_in_range:
  assumes "0 \<le> shard_id" "shard_id < int (get_num_shards s)"
    and "get_num_shards s \<le> length (x_shards s)"
  shows "get_shard_x s shard_id = Inr (x_shards s ! nat shard_id)"
  using assms by (simp add: get_shard_x_def py_index_def Let_def)

text \<open>
  C4. The four accessors do not raise IndexOutOfRange exactly outside
  \<open>[0, get_num_shards())\<close>: the test \<^verbatim>\<open>0 < shard_id >= self.get_num_shards()\<close> lets
  every negative id and the id 0 through. On a dataset of two shards the id -1 reads and
  overwrites the last shard, and on a dataset without shards the id 0 reaches the list
  subscript.
\<close>

theorem shard_id_check_accepts_negative_ids:
  "get_shard_x (blank [[[1]], [[2]]] [[1], [2]] 32) (- 1) = Inr [[2]]
   \<and> get_shard_y (blank [[[1]], [[2]]] [[1], [2]] 32) (- 1) = Inr [2]
   \<and> set_shard_x (blank [[[1]], [[2]]] [[1], [2]] 32) (- 1) [[9]]
       = Inr ((blank [[[1]], [[2]]] [[1], [2]] 32)\<lparr>x_shards := [[[1]], [[9]]]\<rparr>)
   \<and> set_shard_y (blank [[[1]], [[2]]] [[1], [2]] 32) (- 1) [9]
       = Inr ((blank [[[1]], [[2]]] [[1], [2]] 32)\<lparr>y_shards := [[1], [9]]\<rparr>)
   \<and> get_shard_x (blank [] [] 32) 0 = Inl PyIndexError"
  by (simp add: shard_access_defs blank_def)


lemma init_num_shards:
  "init bt xs ys n = Inr s \<Longrightarrow> get_num_shards s = min (length xs) (length ys)"
  by (auto simp: init_def blank_def Let_def get_num_shards_def
           split: prod.splits list.splits option.splits)

text \<open>
  C10. \<open>get_num_shards\<close> is the length of the shorter list of shards, but the shards in
  excess are not out of reach of every read and write: with two x-shards and one
  y-shard the constructor counts one shard, and the id -1 reads and overwrites the second
  x-shard; with one x-shard and no y-shard it counts none, and the id 0 reads the
  x-shard. This is the bound check of C4 again.
\<close>

theorem excess_shard_read_and_written:
  "init batch_transform [[[1]], [[2]]] [[5]] 32
     = Inr ((blank [[[1]], [[2]]] [[5]] 32)
              \<lparr>input_shape := Some [1], input_size := Some 1, dataset_size := 1\<rparr>)
   \<and> get_num_shards ((blank [[[1]], [[2]]] [[5]] 32)
              \<lparr>input_shape := Some [1], input_size := Some 1, dataset_size := 1\<rparr>) = 1
   \<and> get_shard_x ((blank [[[1]], [[2]]] [[5]] 32)
              \<lparr>input_shape := Some [1], input_size := Some 1, dataset_size := 1\<rparr>) (- 1)
       = Inr [[2]]
   \<and> set_shard_x ((blank [[[1]], [[2]]] [[5]] 32)
              \<lparr>input_shape := Some [1], input_size := Some 1, dataset_size := 1\<rparr>) (- 1) [[9]]
       = Inr ((blank [[[1]], [[2]]] [[5]] 32)
              \<lparr>input_shape := Some [1], input_size := Some 1, dataset_size := 1,
               x_shards := [[[1]], [[9]]]\<rparr>)
   \<and> init batch_transform [[[1]]] [] 32 = Inr (blank [[[1]]] [] 32)
   \<and> get_num_shards (blank [[[1]]] [] 32) = 0
   \<and> get_shard_x (blank [[[1]]] [] 32) 0 = Inr [[1]]"
  by (simp add: init_def iterate_batches_def shard_loop.simps shard_access_defs blank_def
        batch_transform_def in_range_def Let_def)

subsection \<open>Streaming batches\<close>

lemmas stream_defs =
  iterate_batches_def shard_loop.simps shard_access_defs blank_def Let_def

text \<open>
  C1. Concatenating the batches of \<open>iterate_batches\<close> with \<open>drop_remainder = False\<close>
  does not reconstruct the rows of every dataset. The remainder is flushed only inside
  the loop over the rows of the last shard, so when the last shard has no rows the rows
  buffered from the shards before it are never yielded: three rows in a first shard, an
  empty second shard and \<open>batch_size = 5\<close> yield no batch at all.
\<close>

theorem buffered_rows_lost_before_empty_last_shard:
  "iterate_batches bt
     ((blank [[[1], [2], [3]], []] [[1, 2, 3], []] 32)\<lparr>disable_transform := True\<rparr>)
     5 True True False = ([], None)
   \<and> iterate_batches batch_transform (blank [[[1], [2], [3]], []] [[1, 2, 3], []] 32)
     5 True True False = ([], None)
   \<and> concat (y_shards (blank [[[1], [2], [3]], []] [[1, 2, 3], []] 32)) = [1, 2, 3]"
  by (simp add: stream_defs batch_transform_def in_range_def)

lemma ten_shards_of_hundred_rows_batch_250:
  "map (\<lambda>b. length (snd b))
     (fst (iterate_batches bt
        ((blank (replicate 10 (replicate 100 [0])) (replicate 10 (replicate 100 0)) 32)
           \<lparr>disable_transform := True\<rparr>) 250 True True False))
   = [250, 250, 250, 250]"
  by code_simp

lemma ten_shards_of_hundred_rows_batch_300_drop_remainder:
  "map (\<lambda>b. length (snd b))
     (fst (iterate_batches bt
        ((blank (replicate 10 (replicate 100 [0])) (replicate 10 (replicate 100 0)) 32)
           \<lparr>disable_transform := True\<rparr>) 300 True True True))
   = [300, 300, 300]"
  by code_simp

lemma get_shard_error_kinds:
  "get_shard_x s i = Inl e \<Longrightarrow> e = IndexOutOfRange \<or> e = PyIndexError"
  "get_shard_y s i = Inl e \<Longrightarrow> e = IndexOutOfRange \<or> e = PyIndexError"
  by (auto simp: get_shard_x_def get_shard_y_def py_index_def split: if_splits)

lemma shards_loop_error_kinds:
  "shards_loop bt s batch_size return_x return_y drop_remainder shard_ids
     y_batch_size x_batch y_batch = (batches, Some e)
   \<Longrightarrow> e = IndexOutOfRange \<or> e = PyIndexError"
proof (induction shard_ids arbitrary: y_batch_size x_batch y_batch batches)
  case Nil
  then show ?case by simp
next
  case (Cons shard_id shard_ids)
  from Cons.prems Cons.IH show ?case
    by (auto split: sum.splits prod.splits if_splits dest: get_shard_error_kinds)
qed

text \<open>
  C9. \<open>iterate_batches\<close> ends with InvalidArgument exactly when \<open>batch_size < 1\<close> or
  neither channel is requested. It has then yielded no batch, and the outcome is the same
  for every dataset and transform: no shard has been read.
\<close>

theorem iterate_batches_invalid_argument_iff:
  "(snd (iterate_batches bt s batch_size return_x return_y drop_remainder)
      = Some InvalidArgument
    \<longleftrightarrow> batch_size < 1 \<or> (\<not> return_x \<and> \<not> return_y))
   \<and> (snd (iterate_batches bt s batch_size return_x return_y drop_remainder)
        = Some InvalidArgument
      \<longrightarrow> fst (iterate_batches bt s batch_size return_x return_y drop_remainder) = []
          \<and> (\<forall>bt' s'. iterate_batches bt' s' batch_size return_x return_y drop_remainder
                       = ([], Some InvalidArgument)))"
proof -
  have valid: "snd (iterate_batches bt s batch_size return_x return_y drop_remainder)
                 \<noteq> Some InvalidArgument"
    if "\<not> (batch_size < 1 \<or> (\<not> return_x \<and> \<not> return_y))"
    using that shards_loop_error_kinds [of bt s batch_size return_x return_y drop_remainder
                 "[0..<get_num_shards s]" 0 "[]" "[]" _ InvalidArgument]
    by (cases "shards_loop bt s batch_size return_x return_y drop_remainder
                 [0..<get_num_shards s] 0 [] []") (auto simp: iterate_batches_def)
  have invalid: "iterate_batches bt' s' batch_size return_x return_y drop_remainder
                   = ([], Some InvalidArgument)"
    if "batch_size < 1 \<or> (\<not> return_x \<and> \<not> return_y)" for bt' s'
    using that by (simp add: iterate_batches_def)
  show ?thesis
    using valid invalid by (metis fst_conv snd_conv)
qed

theorem iterate_batches_invalid_argument_iff_witness:
  "snd (iterate_batches batch_transform (blank [[[1]]] [[1]] 32) 0 True True False)
     = Some InvalidArgument
   \<and> fst (iterate_batches batch_transform (blank [[[1]]] [[1]] 32) 0 True True False) = []
   \<and> iterate_batches batch_transform (blank [[[2]]] [[2]] 32) 0 True True False
     = ([], Some InvalidArgument)
   \<and> snd (iterate_batches batch_transform (blank [[[1]]] [[1]] 32) 1 True True False)
     \<noteq> Some InvalidArgument"
  using iterate_batches_invalid_argument_iff
          [of batch_transform "blank [[[1]]] [[1]] 32" 0 True True False]
        iterate_batches_invalid_argument_iff
          [of batch_transform "blank [[[1]]] [[1]] 32" 1 True True False]
  by simp


subsection \<open>The batches of a dataset whose last shard has rows\<close>

lemma shard_loop_done:
  "\<not> (shard_position < length y_shard_data \<and> y_batch_size < batch_size)
   \<Longrightarrow> shard_loop bt s batch_size return_x return_y drop_remainder shard_id
         x_shard_data y_shard_data shard_position y_batch_size x_batch y_batch
       = ([], y_batch_size, x_batch, y_batch)"
  by (subst shard_loop.simps) (simp only: if_False)

lemma shard_loop_step:
  assumes "shard_position < length y_shard_data" "y_batch_size < batch_size"
    and "return_x \<or> return_y"
  shows "shard_loop bt s batch_size return_x return_y drop_remainder shard_id
           x_shard_data y_shard_data shard_position y_batch_size x_batch y_batch
         = (let k = nat (batch_size - y_batch_size);
                a = appended bt s return_x return_y
                      (take k (drop shard_position x_shard_data))
                      (take k (drop shard_position y_shard_data));
                n = y_batch_size + int (if return_y then length (snd a) else length (fst a))
            in if batch_size \<le> n
                  \<or> (length y_shard_data \<le> shard_position + k
                      \<and> shard_id + 1 = get_num_shards s \<and> \<not> drop_remainder)
               then ((if return_x then x_batch @ fst a else [],
                      if return_y then y_batch @ snd a else [])
                       # fst (shard_loop bt s batch_size return_x return_y drop_remainder
                               shard_id x_shard_data y_shard_data (shard_position + k)
                               0 [] []),
                     snd (shard_loop bt s batch_size return_x return_y drop_remainder
                            shard_id x_shard_data y_shard_data (shard_position + k)
                            0 [] []))
               else shard_loop bt s batch_size return_x return_y drop_remainder
                      shard_id x_shard_data y_shard_data (shard_position + k)
                      n (if return_x then x_batch @ fst a else [])
                      (if return_y then y_batch @ snd a else []))"
  using assms
  apply (subst shard_loop.simps)
  apply (simp only: Let_def appended_def if_True simp_thms)
  apply (cases return_x; cases return_y; cases "disable_transform s")
         apply (simp_all only: if_True if_False simp_thms fst_conv snd_conv
                  not_True_eq_False not_False_eq_True)
  done


text \<open>
  A transform distributes over cutting a shard when the rows appended for a shard are
  those appended for its first rows followed by those appended for the rest.
\<close>

lemma shard_loop_appends:
  assumes cut: "\<And>x y k. fst (appended bt s return_x return_y x y)
                    = fst (appended bt s return_x return_y (take k x) (take k y))
                      @ fst (appended bt s return_x return_y (drop k x) (drop k y))"
               "\<And>x y k. snd (appended bt s return_x return_y x y)
                    = snd (appended bt s return_x return_y (take k x) (take k y))
                      @ snd (appended bt s return_x return_y (drop k x) (drop k y))"
    and none: "appended bt s return_x return_y [] [] = ([], [])"
    and channel: "return_x \<or> return_y"
    and rows: "return_x \<longrightarrow> length x_shard_data = length y_shard_data"
    and size: "1 \<le> batch_size"
  shows "y_batch_size < batch_size
     \<Longrightarrow> (\<not> return_x \<longrightarrow> x_batch = []) \<Longrightarrow> (\<not> return_y \<longrightarrow> y_batch = [])
     \<Longrightarrow> shard_loop bt s batch_size return_x return_y drop_remainder shard_id
           x_shard_data y_shard_data shard_position y_batch_size x_batch y_batch
         = (yielded, y_batch_size', x_batch', y_batch')
     \<Longrightarrow> concat (map fst yielded) @ x_batch'
           = x_batch @ fst (appended bt s return_x return_y
                              (drop shard_position x_shard_data)
                              (drop shard_position y_shard_data))
       \<and> concat (map snd yielded) @ y_batch'
           = y_batch @ snd (appended bt s return_x return_y
                              (drop shard_position x_shard_data)
                              (drop shard_position y_shard_data))
       \<and> y_batch_size' < batch_size
       \<and> (\<not> return_x \<longrightarrow> x_batch' = []) \<and> (\<not> return_y \<longrightarrow> y_batch' = [])
       \<and> (shard_id + 1 = get_num_shards s \<and> \<not> drop_remainder
            \<and> shard_position < length y_shard_data
           \<longrightarrow> x_batch' = [] \<and> y_batch' = [])"
proof (induction "length y_shard_data - shard_position"
         arbitrary: shard_position y_batch_size x_batch y_batch
                    yielded y_batch_size' x_batch' y_batch'
         rule: less_induct)
  case less
  let ?x = "drop shard_position x_shard_data" and ?y = "drop shard_position y_shard_data"
  show ?case
  proof (cases "shard_position < length y_shard_data")
    case False
    then have "?y = []" and "return_x \<longrightarrow> ?x = []"
      using rows by simp_all
    then have "appended bt s return_x return_y ?x ?y = ([], [])"
      using none by (cases return_x) (simp_all add: appended_def)
    moreover have "yielded = [] \<and> y_batch_size' = y_batch_size
                   \<and> x_batch' = x_batch \<and> y_batch' = y_batch"
      using less.prems(4) False by (simp add: shard_loop_done)
    ultimately show ?thesis
      using less.prems(1-3) False by simp
  next
    case True
    define k where "k = nat (batch_size - y_batch_size)"
    define a where "a = appended bt s return_x return_y (take k ?x) (take k ?y)"
    define n where
      "n = y_batch_size + int (if return_y then length (snd a) else length (fst a))"
    define xb where "xb = (if return_x then x_batch @ fst a else [])"
    define yb where "yb = (if return_y then y_batch @ snd a else [])"
    have k: "0 < k" using less.prems(1) by (simp add: k_def)
    then have smaller: "length y_shard_data - (shard_position + k)
                          < length y_shard_data - shard_position"
      using True by linarith
    have parts:
      "fst (appended bt s return_x return_y ?x ?y)
         = fst a @ fst (appended bt s return_x return_y
                          (drop (shard_position + k) x_shard_data)
                          (drop (shard_position + k) y_shard_data))"
      "snd (appended bt s return_x return_y ?x ?y)
         = snd a @ snd (appended bt s return_x return_y
                          (drop (shard_position + k) x_shard_data)
                          (drop (shard_position + k) y_shard_data))"
      using cut(1) [of ?x ?y k] cut(2) [of ?x ?y k] by (simp_all add: a_def add.commute)
    have a_off: "\<not> return_x \<longrightarrow> fst a = []" "\<not> return_y \<longrightarrow> snd a = []"
      by (simp_all add: a_def appended_def Let_def)
    have step: "shard_loop bt s batch_size return_x return_y drop_remainder shard_id
                  x_shard_data y_shard_data shard_position y_batch_size x_batch y_batch
                = (if batch_size \<le> n
                      \<or> (length y_shard_data \<le> shard_position + k
                          \<and> shard_id + 1 = get_num_shards s \<and> \<not> drop_remainder)
                   then ((xb, yb)
                           # fst (shard_loop bt s batch_size return_x return_y drop_remainder
                                   shard_id x_shard_data y_shard_data (shard_position + k)
                                   0 [] []),
                         snd (shard_loop bt s batch_size return_x return_y drop_remainder
                                shard_id x_shard_data y_shard_data (shard_position + k)
                                0 [] []))
                   else shard_loop bt s batch_size return_x return_y drop_remainder
                          shard_id x_shard_data y_shard_data (shard_position + k) n xb yb)"
      using shard_loop_step [OF True less.prems(1) channel]
      by (simp only: Let_def k_def a_def n_def xb_def yb_def)
    show ?thesis
    proof (cases "batch_size \<le> n
                    \<or> (length y_shard_data \<le> shard_position + k
                        \<and> shard_id + 1 = get_num_shards s \<and> \<not> drop_remainder)")
      case flush: True
      obtain later n' xb' yb' where
        rest: "shard_loop bt s batch_size return_x return_y drop_remainder shard_id
                 x_shard_data y_shard_data (shard_position + k) 0 [] []
               = (later, n', xb', yb')"
        using prod_cases4 by blast
      have result: "yielded = (xb, yb) # later" "y_batch_size' = n'"
        "x_batch' = xb'" "y_batch' = yb'"
        using less.prems(4) flush rest by (simp_all add: step)
      have positive: "(0::int) < batch_size" using size by simp
      have ih: "concat (map fst later) @ xb'
                  = fst (appended bt s return_x return_y
                           (drop (shard_position + k) x_shard_data)
                           (drop (shard_position + k) y_shard_data))"
        "concat (map snd later) @ yb'
           = snd (appended bt s return_x return_y
                    (drop (shard_position + k) x_shard_data)
                    (drop (shard_position + k) y_shard_data))"
        "n' < batch_size" "\<not> return_x \<longrightarrow> xb' = []" "\<not> return_y \<longrightarrow> yb' = []"
        "shard_id + 1 = get_num_shards s \<and> \<not> drop_remainder
           \<and> shard_position + k < length y_shard_data \<longrightarrow> xb' = [] \<and> yb' = []"
        using less.hyps [OF smaller positive _ _ rest] by simp_all
      have ended: "\<not> shard_position + k < length y_shard_data \<longrightarrow> xb' = [] \<and> yb' = []"
        using rest by (auto simp: shard_loop_done)
      have buffers: "xb = x_batch @ fst a" "yb = y_batch @ snd a"
        using less.prems(2,3) a_off by (auto simp: xb_def yb_def)
      have "concat (map fst yielded) @ x_batch'
              = x_batch @ fst (appended bt s return_x return_y ?x ?y)"
        using ih(1) by (simp add: result buffers parts(1))
      moreover have "concat (map snd yielded) @ y_batch'
              = y_batch @ snd (appended bt s return_x return_y ?x ?y)"
        using ih(2) by (simp add: result buffers parts(2))
      moreover have "x_batch' = [] \<and> y_batch' = []"
        if "shard_id + 1 = get_num_shards s \<and> \<not> drop_remainder"
        using that ih(6) ended by (auto simp: result)
      ultimately show ?thesis
        using ih(3-5) by (simp add: result)
    next
      case keep: False
      have result: "shard_loop bt s batch_size return_x return_y drop_remainder shard_id
                      x_shard_data y_shard_data (shard_position + k) n xb yb
                    = (yielded, y_batch_size', x_batch', y_batch')"
        using less.prems(4) by (simp only: step keep if_False)
      have below: "n < batch_size" using keep by simp
      have off: "\<not> return_x \<longrightarrow> xb = []" "\<not> return_y \<longrightarrow> yb = []"
        by (simp_all add: xb_def yb_def)
      have ih: "concat (map fst yielded) @ x_batch'
                  = xb @ fst (appended bt s return_x return_y
                                (drop (shard_position + k) x_shard_data)
                                (drop (shard_position + k) y_shard_data))"
        "concat (map snd yielded) @ y_batch'
           = yb @ snd (appended bt s return_x return_y
                         (drop (shard_position + k) x_shard_data)
                         (drop (shard_position + k) y_shard_data))"
        "y_batch_size' < batch_size" "\<not> return_x \<longrightarrow> x_batch' = []"
        "\<not> return_y \<longrightarrow> y_batch' = []"
        "shard_id + 1 = get_num_shards s \<and> \<not> drop_remainder
           \<and> shard_position + k < length y_shard_data
         \<longrightarrow> x_batch' = [] \<and> y_batch' = []"
        using less.hyps [OF smaller below off result] by simp_all
      have buffers: "xb = x_batch @ fst a" "yb = y_batch @ snd a"
        using less.prems(2,3) a_off by (auto simp: xb_def yb_def)
      have "concat (map fst yielded) @ x_batch'
              = x_batch @ fst (appended bt s return_x return_y ?x ?y)"
        using ih(1) by (simp add: buffers parts(1))
      moreover have "concat (map snd yielded) @ y_batch'
              = y_batch @ snd (appended bt s return_x return_y ?x ?y)"
        using ih(2) by (simp add: buffers parts(2))
      moreover have "x_batch' = [] \<and> y_batch' = []"
        if "shard_id + 1 = get_num_shards s \<and> \<not> drop_remainder"
        using that ih(6) keep by auto
      ultimately show ?thesis
        using ih(3-5) by simp
    qed
  qed
qed

lemma appended_without_x:
  "\<not> return_x \<Longrightarrow> appended bt s return_x return_y x y = appended bt s return_x return_y [] y"
  by (simp add: appended_def)

lemma paired_loads:
  assumes "paired s" "shard_id < get_num_shards s"
  shows "get_shard_x s (int shard_id) = Inr (x_shards s ! shard_id)"
    and "get_shard_y s (int shard_id) = Inr (y_shards s ! shard_id)"
    and "length (x_shards s ! shard_id) = length (y_shards s ! shard_id)"
  using assms
  by (auto simp: paired_def get_shard_x_def get_shard_y_def py_index_def list_all_iff)

lemma shards_loop_appends:
  assumes cut: "\<And>x y k. fst (appended bt s return_x return_y x y)
                    = fst (appended bt s return_x return_y (take k x) (take k y))
                      @ fst (appended bt s return_x return_y (drop k x) (drop k y))"
               "\<And>x y k. snd (appended bt s return_x return_y x y)
                    = snd (appended bt s return_x return_y (take k x) (take k y))
                      @ snd (appended bt s return_x return_y (drop k x) (drop k y))"
    and none: "appended bt s return_x return_y [] [] = ([], [])"
    and channel: "return_x \<or> return_y"
    and size: "1 \<le> batch_size"
    and paired: "paired s"
    and last: "get_num_shards s = 0 \<or> y_shards s ! (get_num_shards s - 1) \<noteq> []"
  shows "first \<le> get_num_shards s \<Longrightarrow> y_batch_size < batch_size
     \<Longrightarrow> (\<not> return_x \<longrightarrow> x_batch = []) \<Longrightarrow> (\<not> return_y \<longrightarrow> y_batch = [])
     \<Longrightarrow> (first = get_num_shards s \<longrightarrow> x_batch = [] \<and> y_batch = [])
     \<Longrightarrow> \<exists>batches.
           shards_loop bt s batch_size return_x return_y False [first..<get_num_shards s]
             y_batch_size x_batch y_batch = (batches, None)
         \<and> concat (map fst batches)
             = x_batch @ concat (map (\<lambda>i. fst (appended bt s return_x return_y
                                                 (x_shards s ! i) (y_shards s ! i)))
                                 [first..<get_num_shards s])
         \<and> concat (map snd batches)
             = y_batch @ concat (map (\<lambda>i. snd (appended bt s return_x return_y
                                                 (x_shards s ! i) (y_shards s ! i)))
                                 [first..<get_num_shards s])"
proof (induction "get_num_shards s - first" arbitrary: first y_batch_size x_batch y_batch)
  case 0
  then show ?case by simp
next
  case (Suc m)
  then have first: "first < get_num_shards s" by simp
  let ?xd = "if return_x then x_shards s ! first else []"
  let ?yd = "y_shards s ! first"
  note loads = paired_loads [OF paired first]
  obtain yielded n xb yb where
    loop: "shard_loop bt s batch_size return_x return_y False first ?xd ?yd 0
             y_batch_size x_batch y_batch = (yielded, n, xb, yb)"
    using prod_cases4 by blast
  have rows: "return_x \<longrightarrow> length ?xd = length ?yd"
    using loads(3) by simp
  have same: "appended bt s return_x return_y ?xd ?yd
              = appended bt s return_x return_y (x_shards s ! first) ?yd"
    using appended_without_x [of return_x bt s return_y "x_shards s ! first" ?yd]
    by (cases return_x) simp_all
  have inv: "concat (map fst yielded) @ xb
               = x_batch @ fst (appended bt s return_x return_y (x_shards s ! first) ?yd)"
    "concat (map snd yielded) @ yb
       = y_batch @ snd (appended bt s return_x return_y (x_shards s ! first) ?yd)"
    "n < batch_size" "\<not> return_x \<longrightarrow> xb = []" "\<not> return_y \<longrightarrow> yb = []"
    "first + 1 = get_num_shards s \<and> 0 < length ?yd \<longrightarrow> xb = [] \<and> yb = []"
    using shard_loop_appends [OF cut none channel rows size Suc.prems(2,3,4) loop]
    by (simp_all add: same)
  have ended: "Suc first = get_num_shards s \<longrightarrow> xb = [] \<and> yb = []"
  proof
    assume final: "Suc first = get_num_shards s"
    then have "get_num_shards s - 1 = first" by simp
    with last final have "?yd \<noteq> []" by auto
    with final inv(6) show "xb = [] \<and> yb = []" by simp
  qed
  have "m = get_num_shards s - Suc first" using Suc.hyps(2) by simp
  from Suc.hyps(1) [OF this _ inv(3,4,5) ended] first
  obtain later where
    rest: "shards_loop bt s batch_size return_x return_y False [Suc first..<get_num_shards s]
             n xb yb = (later, None)"
    and later: "concat (map fst later)
             = xb @ concat (map (\<lambda>i. fst (appended bt s return_x return_y
                                           (x_shards s ! i) (y_shards s ! i)))
                           [Suc first..<get_num_shards s])"
      "concat (map snd later)
             = yb @ concat (map (\<lambda>i. snd (appended bt s return_x return_y
                                           (x_shards s ! i) (y_shards s ! i)))
                           [Suc first..<get_num_shards s])"
    by auto
  have unfold: "[first..<get_num_shards s] = first # [Suc first..<get_num_shards s]"
    using first by (simp add: upt_conv_Cons)
  have run: "shards_loop bt s batch_size return_x return_y False [first..<get_num_shards s]
               y_batch_size x_batch y_batch = (yielded @ later, None)"
    using loop rest loads(1,2) by (cases return_x) (simp_all add: unfold)
  have "concat (map fst (yielded @ later))
          = x_batch @ concat (map (\<lambda>i. fst (appended bt s return_x return_y
                                              (x_shards s ! i) (y_shards s ! i)))
                              [first..<get_num_shards s])"
    using inv(1) later(1) by (simp add: unfold)
  moreover have "concat (map snd (yielded @ later))
          = y_batch @ concat (map (\<lambda>i. snd (appended bt s return_x return_y
                                              (x_shards s ! i) (y_shards s ! i)))
                              [first..<get_num_shards s])"
    using inv(2) later(2) by (simp add: unfold)
  ultimately show ?case
    using run by blast
qed


lemma map_nth_upt_take: "n \<le> length xs \<Longrightarrow> map (\<lambda>i. xs ! i) [0..<n] = take n xs"
  by (simp add: list_eq_iff_nth_eq)

text \<open>
  With the transform disabled, a batch size of at least one and
  \<open>drop_remainder = False\<close>, the batches of a dataset with paired shards whose last
  shard has rows are, concatenated, the rows the dataset stores, in their order.
\<close>

lemma iterate_batches_stored_rows:
  assumes "1 \<le> batch_size" "return_x \<or> return_y" "disable_transform s" "paired s"
    and "get_num_shards s = 0 \<or> y_shards s ! (get_num_shards s - 1) \<noteq> []"
  shows "\<exists>batches. iterate_batches bt s batch_size return_x return_y False = (batches, None)
           \<and> concat (map fst batches) = (if return_x then stored_x s else [])
           \<and> concat (map snd batches) = (if return_y then stored_y s else [])"
proof -
  have plain: "appended bt s return_x return_y x y
                 = (if return_x then x else [], if return_y then y else [])" for x y
    using assms(3) by (simp add: appended_def)
  have "\<exists>batches.
          shards_loop bt s batch_size return_x return_y False [0..<get_num_shards s]
            0 [] [] = (batches, None)
        \<and> concat (map fst batches)
            = [] @ concat (map (\<lambda>i. fst (appended bt s return_x return_y
                                          (x_shards s ! i) (y_shards s ! i)))
                          [0..<get_num_shards s])
        \<and> concat (map snd batches)
            = [] @ concat (map (\<lambda>i. snd (appended bt s return_x return_y
                                          (x_shards s ! i) (y_shards s ! i)))
                          [0..<get_num_shards s])"
    using assms(1,2,4,5)
    by (intro shards_loop_appends) (simp_all add: plain)
  then obtain batches where
    run: "shards_loop bt s batch_size return_x return_y False [0..<get_num_shards s]
            0 [] [] = (batches, None)"
    and x: "concat (map fst batches)
              = concat (map (\<lambda>i. if return_x then x_shards s ! i else [])
                          [0..<get_num_shards s])"
    and y: "concat (map snd batches)
              = concat (map (\<lambda>i. if return_y then y_shards s ! i else [])
                          [0..<get_num_shards s])"
    by (auto simp: plain)
  have "concat (map (\<lambda>i. x_shards s ! i) [0..<get_num_shards s]) = stored_x s"
    "concat (map (\<lambda>i. y_shards s ! i) [0..<get_num_shards s]) = stored_y s"
    using assms(4) by (simp_all add: stored_x_def stored_y_def paired_def map_nth_upt_take)
  then have "concat (map fst batches) = (if return_x then stored_x s else [])"
    "concat (map snd batches) = (if return_y then stored_y s else [])"
    using x y by (auto simp: concat_eq_Nil_conv)
  then show ?thesis
    using run assms(1,2) by (simp add: iterate_batches_def)
qed

text \<open>
  With the filter of the transform in force and no normalization, the predictions of the
  batches are the stored predictions within the bounds, in their order.
\<close>

lemma iterate_batches_filtered_predictions:
  assumes "1 \<le> batch_size" "return_x \<or> return_y" "\<not> disable_transform s" "paired s"
    and "get_num_shards s = 0 \<or> y_shards s ! (get_num_shards s - 1) \<noteq> []"
    and "\<not> is_normalized_x s" "\<not> is_normalized_y s"
  shows "\<exists>batches.
           iterate_batches batch_transform s batch_size return_x return_y False
             = (batches, None)
           \<and> concat (map snd batches)
               = (if return_y then filter (in_range s) (stored_y s) else [])"
proof -
  have kept: "appended batch_transform s return_x return_y x y
                = (if return_x then map fst (filter (\<lambda>(x, y). in_range s y) (zip x y)) else [],
                   if return_y then filter (in_range s) y else [])" for x y
    using assms(3,6,7) by (simp add: appended_def batch_transform_def Let_def)
  have zipped: "zip x y = zip (take k x) (take k y) @ zip (drop k x) (drop k y)"
    for x :: "real list list" and y :: "real list" and k
    by (metis append_take_drop_id take_zip drop_zip)
  have cut_x: "fst (appended batch_transform s return_x return_y x y)
                 = fst (appended batch_transform s return_x return_y (take k x) (take k y))
                   @ fst (appended batch_transform s return_x return_y (drop k x) (drop k y))"
    for x y k
    using zipped [of x y k] by (simp add: kept flip: map_append filter_append)
  have cut_y: "snd (appended batch_transform s return_x return_y x y)
                 = snd (appended batch_transform s return_x return_y (take k x) (take k y))
                   @ snd (appended batch_transform s return_x return_y (drop k x) (drop k y))"
    for x y k
    by (simp add: kept flip: filter_append)
  have "\<exists>batches.
          shards_loop batch_transform s batch_size return_x return_y False
            [0..<get_num_shards s] 0 [] [] = (batches, None)
        \<and> concat (map fst batches)
            = [] @ concat (map (\<lambda>i. fst (appended batch_transform s return_x return_y
                                          (x_shards s ! i) (y_shards s ! i)))
                          [0..<get_num_shards s])
        \<and> concat (map snd batches)
            = [] @ concat (map (\<lambda>i. snd (appended batch_transform s return_x return_y
                                          (x_shards s ! i) (y_shards s ! i)))
                          [0..<get_num_shards s])"
    using assms(1,2,4,5) cut_x cut_y
    by (intro shards_loop_appends) (simp_all add: kept)
  then obtain batches where
    run: "shards_loop batch_transform s batch_size return_x return_y False
            [0..<get_num_shards s] 0 [] [] = (batches, None)"
    and y: "concat (map snd batches)
              = concat (map (\<lambda>i. if return_y then filter (in_range s) (y_shards s ! i) else [])
                          [0..<get_num_shards s])"
    by (auto simp: kept)
  have "concat (map (\<lambda>i. filter (in_range s) (y_shards s ! i)) [0..<get_num_shards s])
          = filter (in_range s) (stored_y s)"
    using assms(4)
    by (simp add: stored_y_def paired_def filter_concat flip: map_nth_upt_take) (simp add: o_def)
  then have "concat (map snd batches)
               = (if return_y then filter (in_range s) (stored_y s) else [])"
    using y by (auto simp: concat_eq_Nil_conv)
  moreover have "iterate_batches batch_transform s batch_size return_x return_y False
                   = (batches, None)"
    using run assms(1,2) by (simp add: iterate_batches_def)
  ultimately show ?thesis by blast
qed

subsection \<open>The two forms of the generator agree\<close>

lemma for_shard_collects:
  "for_shard bt (\<lambda>c s b. Inr (c @ [b], s)) batch_size return_x return_y drop_remainder
     shard_id x_shard_data y_shard_data shard_position y_batch_size x_batch y_batch c s
   = (case shard_loop bt s batch_size return_x return_y drop_remainder
             shard_id x_shard_data y_shard_data shard_position y_batch_size x_batch y_batch of
        (yielded, y_batch_size', x_batch', y_batch') \<Rightarrow>
          Inr (y_batch_size', x_batch', y_batch', c @ yielded, s))"
proof (induction "length y_shard_data - shard_position"
         arbitrary: shard_position y_batch_size x_batch y_batch c rule: less_induct)
  case less
  show ?case
  proof (cases "shard_position < length y_shard_data \<and> y_batch_size < batch_size")
    case False
    then show ?thesis
      by (subst for_shard.simps, subst shard_loop.simps)
         (simp only: if_False prod.case append_Nil2)
  next
    case True
    define k where "k = nat (batch_size - y_batch_size)"
    define sliced where
      "sliced = (if \<not> disable_transform s
                 then bt s return_x return_y
                        (if return_x then take k (drop shard_position x_shard_data) else [])
                        (take k (drop shard_position y_shard_data))
                 else (if return_x then take k (drop shard_position x_shard_data) else [],
                       take k (drop shard_position y_shard_data)))"
    define n where
      "n = y_batch_size
           + int (if return_y then length (snd sliced) else length (fst sliced))"
    define xb where "xb = (if return_x then x_batch @ fst sliced else [])"
    define yb where "yb = (if return_y then y_batch @ snd sliced else [])"
    define flush where
      "flush \<longleftrightarrow> batch_size \<le> n
         \<or> (length y_shard_data \<le> shard_position + k
             \<and> shard_id + 1 = get_num_shards s \<and> \<not> drop_remainder)"
    have "length y_shard_data - (shard_position + k)
            < length y_shard_data - shard_position"
      using True by (simp add: k_def) linarith
    note later = less.hyps [OF this]
    have consumer: "for_shard bt (\<lambda>c s b. Inr (c @ [b], s)) batch_size return_x return_y
                      drop_remainder shard_id x_shard_data y_shard_data shard_position
                      y_batch_size x_batch y_batch c s
                    = (if flush
                       then for_shard bt (\<lambda>c s b. Inr (c @ [b], s)) batch_size
                              return_x return_y drop_remainder shard_id x_shard_data
                              y_shard_data (shard_position + k) 0 [] [] (c @ [(xb, yb)]) s
                       else for_shard bt (\<lambda>c s b. Inr (c @ [b], s)) batch_size
                              return_x return_y drop_remainder shard_id x_shard_data
                              y_shard_data (shard_position + k) n xb yb c s)"
      unfolding flush_def yb_def xb_def n_def sliced_def k_def
      by (subst for_shard.simps) (simp only: True simp_thms if_True Let_def sum.case prod.case)
    have producer: "shard_loop bt s batch_size return_x return_y drop_remainder shard_id
                      x_shard_data y_shard_data shard_position y_batch_size x_batch y_batch
                    = (if flush
                       then ((xb, yb)
                               # fst (shard_loop bt s batch_size return_x return_y
                                       drop_remainder shard_id x_shard_data y_shard_data
                                       (shard_position + k) 0 [] []),
                             snd (shard_loop bt s batch_size return_x return_y
                                    drop_remainder shard_id x_shard_data y_shard_data
                                    (shard_position + k) 0 [] []))
                       else shard_loop bt s batch_size return_x return_y drop_remainder
                              shard_id x_shard_data y_shard_data (shard_position + k)
                              n xb yb)"
      unfolding flush_def yb_def xb_def n_def sliced_def k_def
      by (subst shard_loop.simps) (simp only: True simp_thms if_True Let_def)
    show ?thesis
    proof (cases flush)
      case True
      obtain yielded n' xb' yb' where
        "shard_loop bt s batch_size return_x return_y drop_remainder shard_id
           x_shard_data y_shard_data (shard_position + k) 0 [] []
         = (yielded, n', xb', yb')"
        using prod_cases4 by blast
      then show ?thesis
        by (simp add: consumer producer True later)
    next
      case False
      then show ?thesis
        by (simp add: consumer producer later)
    qed
  qed
qed

lemma for_shards_collects:
  "for_shards bt (\<lambda>c s b. Inr (c @ [b], s)) batch_size return_x return_y drop_remainder
     shard_ids y_batch_size x_batch y_batch c s
   = (case shards_loop bt s batch_size return_x return_y drop_remainder
             shard_ids y_batch_size x_batch y_batch of
        (batches, None) \<Rightarrow> Inr (c @ batches, s)
      | (batches, Some e) \<Rightarrow> Inl (e, s))"
proof (induction shard_ids arbitrary: y_batch_size x_batch y_batch c)
  case Nil
  show ?case by simp
next
  case (Cons shard_id shard_ids)
  show ?case
  proof (cases "if return_x then get_shard_x s (int shard_id) else Inr []")
    case (Inl e)
    then show ?thesis by simp
  next
    case x: (Inr x_shard_data)
    show ?thesis
    proof (cases "get_shard_y s (int shard_id)")
      case (Inl e)
      with x show ?thesis by simp
    next
      case y: (Inr y_shard_data)
      obtain yielded y_batch_size' x_batch' y_batch' where
        loop: "shard_loop bt s batch_size return_x return_y drop_remainder shard_id
                 x_shard_data y_shard_data 0 y_batch_size x_batch y_batch
               = (yielded, y_batch_size', x_batch', y_batch')"
        using prod_cases4 by blast
      obtain later raised where
        rest: "shards_loop bt s batch_size return_x return_y drop_remainder shard_ids
                 y_batch_size' x_batch' y_batch' = (later, raised)"
        by fastforce
      show ?thesis
        using x y loop rest
        by (simp add: for_shard_collects Cons.IH split: option.splits)
    qed
  qed
qed

lemma for_batches_collects:
  "for_batches bt (\<lambda>c s b. Inr (c @ [b], s)) batch_size return_x return_y drop_remainder [] s
   = (case iterate_batches bt s batch_size return_x return_y drop_remainder of
        (batches, None) \<Rightarrow> Inr (batches, s)
      | (batches, Some e) \<Rightarrow> Inl (e, s))"
  by (simp add: for_batches_def iterate_batches_def for_shards_collects)

subsection \<open>Relabelling\<close>

lemmas relabel_defs =
  relabel_def y_property_def for_batches_def for_shard.simps relabel_while.simps
  subsample_def

lemma relabel_constant_one_on_full_last_shard:
  "relabel bt pct (\<lambda>x y. map (\<lambda>v. v * 0 + 1) y)
     (blank [[[1], [2], [3]], [[4]]] [[5, 6, 7], [8]] 2)
   = Inr ((blank [[[1], [2], [3]], [[4]]] [[5, 6, 7], [8]] 2)
            \<lparr>y_shards := [[1, 1, 1], [1]], dataset_size := 4\<rparr>)"
  by (simp add: stream_defs relabel_defs)

lemma relabel_keeps_shard_sizes_around_an_empty_shard:
  "relabel bt pct (\<lambda>x y. map (\<lambda>v. v + 10) y)
     (blank [[[1], [2], [3]], [], [[4], [5]]] [[5, 6, 7], [], [8, 9]] 2)
   = Inr ((blank [[[1], [2], [3]], [], [[4], [5]]] [[5, 6, 7], [], [8, 9]] 2)
            \<lparr>y_shards := [[15, 16, 17], [], [18, 19]], dataset_size := 5\<rparr>)"
  by (simp add: stream_defs relabel_defs)

text \<open>
  C7. \<open>relabel\<close> does not keep the row count of every y-shard. On three rows in a
  first shard, an empty second shard and an internal batch size of two, the stream loses
  the third row (C1), \<open>relabel\<close> counts two examples and writes a first shard of two
  rows over the one of three; the third prediction is never relabelled.
\<close>

theorem relabel_shrinks_shard_before_empty_last_shard:
  "init batch_transform [[[1], [2], [3]], []] [[5, 6, 7], []] 2
     = Inr ((blank [[[1], [2], [3]], []] [[5, 6, 7], []] 2)
              \<lparr>input_shape := Some [1], input_size := Some 1, dataset_size := 2\<rparr>)
   \<and> relabel batch_transform pct (\<lambda>x y. map (\<lambda>v. v * 0 + 1) y)
        ((blank [[[1], [2], [3]], []] [[5, 6, 7], []] 2)
              \<lparr>input_shape := Some [1], input_size := Some 1, dataset_size := 2\<rparr>)
     = Inr ((blank [[[1], [2], [3]], []] [[5, 6, 7], []] 2)
              \<lparr>input_shape := Some [1], input_size := Some 1, dataset_size := 2,
               y_shards := [[1, 1], []]\<rparr>)"
  by (simp add: init_def stream_defs relabel_defs batch_transform_def in_range_def)

subsection \<open>Splitting\<close>

lemma no_hidden_sample_when_one_is_active:
  "bound_le lo v \<Longrightarrow> bound_ge hi v \<Longrightarrow> \<not> (bound_gt lo w \<and> bound_lt hi w)"
  by (cases lo; cases hi) auto

lemma hidden_ids_empty:
  assumes "bound_le (dataset_min_output s) v" "bound_ge (dataset_max_output s) v"
  shows "hidden_ids s original_y = []"
  using no_hidden_sample_when_one_is_active [OF assms]
  by (simp add: hidden_ids_def)

text \<open>
  C2. The hidden group of \<open>split\<close> is not the set of indices whose y lies outside the
  bounds: it is computed with \<^verbatim>\<open>logical_and(min > y, max < y)\<close>, which no y satisfies
  once some value lies within the bounds. With bounds [2, 3] and predictions 1, 2, 3, 4
  the indices 0 and 3 are outside the bounds and the hidden group is empty.
\<close>

theorem hidden_group_empty:
  "active_ids ((blank [] [] 32)\<lparr>dataset_min_output := Fin 2, dataset_max_output := Fin 3\<rparr>)
     [1, 2, 3, 4] = [1, 2]
   \<and> hidden_ids ((blank [] [] 32)\<lparr>dataset_min_output := Fin 2, dataset_max_output := Fin 3\<rparr>)
     [1, 2, 3, 4] = []
   \<and> \<not> in_range ((blank [] [] 32)\<lparr>dataset_min_output := Fin 2, dataset_max_output := Fin 3\<rparr>)
         ([1, 2, 3, 4] ! 0)
   \<and> \<not> in_range ((blank [] [] 32)\<lparr>dataset_min_output := Fin 2, dataset_max_output := Fin 3\<rparr>)
         ([1, 2, 3, 4] ! 3)"
  by (simp add: active_ids_def hidden_ids_def in_range_def blank_def upt_rec)

lemma split_sends_hidden_samples_to_training:
  "split batch_transform (\<lambda>n k. Inr [0..<nat k]) (\<lambda>s xs ys. Inr (blank xs ys 2))
     ((blank [[[1], [2], [3], [4]]] [[1, 2, 3, 4]] 2)
        \<lparr>dataset_min_output := Fin 2, dataset_max_output := Fin 3, dataset_size := 2\<rparr>)
     (1 / 2) 5
   = Inr (Some ((blank [[[1], [3], [4]]] [[1, 3, 4]] 2)\<lparr>freeze_statistics := True\<rparr>,
                (blank [[[2]]] [[2]] 2)\<lparr>freeze_statistics := True\<rparr>),
          (blank [[[1], [2], [3], [4]]] [[1, 2, 3, 4]] 2)
            \<lparr>dataset_min_output := Fin 2, dataset_max_output := Fin 3, dataset_size := 2\<rparr>)"
  by (simp add: split_def stream_defs y_property_def select_ids_def active_ids_def
        hidden_ids_def py_int_def iterate_samples_def write_validation_def
        write_training_def upt_rec)

lemma split_returns_frozen:
  assumes "split bt choice rebuild s fraction shard_size
             = Inr (Some (dtraining, dvalidation), s')"
  shows "freeze_statistics dtraining \<and> freeze_statistics dvalidation"
  using assms
  by (auto simp: split_def Let_def split: sum.splits option.splits prod.splits if_splits)

lemma frozen_rejects:
  assumes "freeze_statistics d"
  shows "subsample bt pct d max_percentile min_percentile = Inl (FrozenStatisticsError, d)"
    and "relabel bt pct relabel_function d = Inl (FrozenStatisticsError, d)"
    and "map_normalize_x bt d = Inl (FrozenStatisticsError, d)"
    and "map_normalize_y bt d = Inl (FrozenStatisticsError, d)"
    and "map_denormalize_x d = Inl (FrozenStatisticsError, d)"
    and "map_denormalize_y d = Inl (FrozenStatisticsError, d)"
    and "update_x_statistics bt d = Inl (FrozenStatisticsError, d)"
    and "update_y_statistics bt d = Inl (FrozenStatisticsError, d)"
  using assms
  by (simp_all add: subsample_def relabel_def map_normalize_x_def map_normalize_y_def
        map_denormalize_x_def map_denormalize_y_def update_x_statistics_def
        update_y_statistics_def)

text \<open>
  C5. Both datasets that \<open>split\<close> returns have \<open>freeze_statistics\<close> set, and on a
  dataset with \<open>freeze_statistics\<close> set each of \<open>subsample\<close>, \<open>relabel\<close>,
  \<open>map_normalize_x\<close>, \<open>map_normalize_y\<close>, \<open>map_denormalize_x\<close>,
  \<open>map_denormalize_y\<close>, \<open>update_x_statistics\<close> and \<open>update_y_statistics\<close> raises
  FrozenStatisticsError and leaves the dataset as it was.
\<close>

theorem split_freezes_and_frozen_rejects:
  "(split bt choice rebuild s fraction shard_size = Inr (Some (dtraining, dvalidation), s')
      \<longrightarrow> freeze_statistics dtraining \<and> freeze_statistics dvalidation)
   \<and> (freeze_statistics d \<longrightarrow>
        subsample bt pct d max_percentile min_percentile = Inl (FrozenStatisticsError, d)
      \<and> relabel bt pct relabel_function d = Inl (FrozenStatisticsError, d)
      \<and> map_normalize_x bt d = Inl (FrozenStatisticsError, d)
      \<and> map_normalize_y bt d = Inl (FrozenStatisticsError, d)
      \<and> map_denormalize_x d = Inl (FrozenStatisticsError, d)
      \<and> map_denormalize_y d = Inl (FrozenStatisticsError, d)
      \<and> update_x_statistics bt d = Inl (FrozenStatisticsError, d)
      \<and> update_y_statistics bt d = Inl (FrozenStatisticsError, d))"
  using split_returns_frozen [of bt choice rebuild s fraction shard_size
          dtraining dvalidation s']
  by (simp add: frozen_rejects)

lemma split_of_four_samples:
  "split batch_transform (\<lambda>n k. Inr [0..<nat k]) (\<lambda>s xs ys. init batch_transform xs ys 2)
     ((blank [[[1], [2], [3]], [[4]]] [[5, 6, 7], [8]] 2)\<lparr>dataset_size := 4\<rparr>) (1 / 2) 5
   = Inr (Some ((blank [[[3], [4]]] [[7, 8]] 2)
                   \<lparr>input_shape := Some [1], input_size := Some 1, dataset_size := 2,
                    freeze_statistics := True\<rparr>,
                (blank [[[1], [2]]] [[5, 6]] 2)
                   \<lparr>input_shape := Some [1], input_size := Some 1, dataset_size := 2,
                    freeze_statistics := True\<rparr>),
          (blank [[[1], [2], [3]], [[4]]] [[5, 6, 7], [8]] 2)\<lparr>dataset_size := 4\<rparr>)"
  by (simp add: split_def stream_defs y_property_def select_ids_def active_ids_def
        hidden_ids_def py_int_def iterate_samples_def write_validation_def
        write_training_def init_def batch_transform_def in_range_def upt_rec)

theorem split_freezes_and_frozen_rejects_witness:
  "split batch_transform (\<lambda>n k. Inr [0..<nat k]) (\<lambda>s xs ys. init batch_transform xs ys 2)
     ((blank [[[1], [2], [3]], [[4]]] [[5, 6, 7], [8]] 2)\<lparr>dataset_size := 4\<rparr>) (1 / 2) 5
   = Inr (Some ((blank [[[3], [4]]] [[7, 8]] 2)
                   \<lparr>input_shape := Some [1], input_size := Some 1, dataset_size := 2,
                    freeze_statistics := True\<rparr>,
                (blank [[[1], [2]]] [[5, 6]] 2)
                   \<lparr>input_shape := Some [1], input_size := Some 1, dataset_size := 2,
                    freeze_statistics := True\<rparr>),
          (blank [[[1], [2], [3]], [[4]]] [[5, 6, 7], [8]] 2)\<lparr>dataset_size := 4\<rparr>)
   \<and> freeze_statistics
       ((blank [[[3], [4]]] [[7, 8]] 2)
          \<lparr>input_shape := Some [1], input_size := Some 1, dataset_size := 2,
           freeze_statistics := True\<rparr>)
   \<and> freeze_statistics
       ((blank [[[1], [2]]] [[5, 6]] 2)
          \<lparr>input_shape := Some [1], input_size := Some 1, dataset_size := 2,
           freeze_statistics := True\<rparr>)
   \<and> subsample batch_transform (\<lambda>y q. Inl PyValueError)
       ((blank [[[1], [2]]] [[5, 6]] 2)
          \<lparr>input_shape := Some [1], input_size := Some 1, dataset_size := 2,
           freeze_statistics := True\<rparr>) 100 0
     = Inl (FrozenStatisticsError,
            (blank [[[1], [2]]] [[5, 6]] 2)
              \<lparr>input_shape := Some [1], input_size := Some 1, dataset_size := 2,
               freeze_statistics := True\<rparr>)
   \<and> relabel batch_transform (\<lambda>y q. Inl PyValueError) (\<lambda>x y. y)
       ((blank [[[1], [2]]] [[5, 6]] 2)
          \<lparr>input_shape := Some [1], input_size := Some 1, dataset_size := 2,
           freeze_statistics := True\<rparr>)
     = Inl (FrozenStatisticsError,
            (blank [[[1], [2]]] [[5, 6]] 2)
              \<lparr>input_shape := Some [1], input_size := Some 1, dataset_size := 2,
               freeze_statistics := True\<rparr>)
   \<and> map_normalize_x batch_transform
       ((blank [[[1], [2]]] [[5, 6]] 2)
          \<lparr>input_shape := Some [1], input_size := Some 1, dataset_size := 2,
           freeze_statistics := True\<rparr>)
     = Inl (FrozenStatisticsError,
            (blank [[[1], [2]]] [[5, 6]] 2)
              \<lparr>input_shape := Some [1], input_size := Some 1, dataset_size := 2,
               freeze_statistics := True\<rparr>)
   \<and> map_normalize_y batch_transform
       ((blank [[[1], [2]]] [[5, 6]] 2)
          \<lparr>input_shape := Some [1], input_size := Some 1, dataset_size := 2,
           freeze_statistics := True\<rparr>)
     = Inl (FrozenStatisticsError,
            (blank [[[1], [2]]] [[5, 6]] 2)
              \<lparr>input_shape := Some [1], input_size := Some 1, dataset_size := 2,
               freeze_statistics := True\<rparr>)
   \<and> map_denormalize_x
       ((blank [[[1], [2]]] [[5, 6]] 2)
          \<lparr>input_shape := Some [1], input_size := Some 1, dataset_size := 2,
           freeze_statistics := True\<rparr>)
     = Inl (FrozenStatisticsError,
            (blank [[[1], [2]]] [[5, 6]] 2)
              \<lparr>input_shape := Some [1], input_size := Some 1, dataset_size := 2,
               freeze_statistics := True\<rparr>)
   \<and> map_denormalize_y
       ((blank [[[1], [2]]] [[5, 6]] 2)
          \<lparr>input_shape := Some [1], input_size := Some 1, dataset_size := 2,
           freeze_statistics := True\<rparr>)
     = Inl (FrozenStatisticsError,
            (blank [[[1], [2]]] [[5, 6]] 2)
              \<lparr>input_shape := Some [1], input_size := Some 1, dataset_size := 2,
               freeze_statistics := True\<rparr>)
   \<and> update_x_statistics batch_transform
       ((blank [[[1], [2]]] [[5, 6]] 2)
          \<lparr>input_shape := Some [1], input_size := Some 1, dataset_size := 2,
           freeze_statistics := True\<rparr>)
     = Inl (FrozenStatisticsError,
            (blank [[[1], [2]]] [[5, 6]] 2)
              \<lparr>input_shape := Some [1], input_size := Some 1, dataset_size := 2,
               freeze_statistics := True\<rparr>)
   \<and> update_y_statistics batch_transform
       ((blank [[[1], [2]]] [[5, 6]] 2)
          \<lparr>input_shape := Some [1], input_size := Some 1, dataset_size := 2,
           freeze_statistics := True\<rparr>)
     = Inl (FrozenStatisticsError,
            (blank [[[1], [2]]] [[5, 6]] 2)
              \<lparr>input_shape := Some [1], input_size := Some 1, dataset_size := 2,
               freeze_statistics := True\<rparr>)"
  using split_freezes_and_frozen_rejects
    [where bt = batch_transform and choice = "\<lambda>n k. Inr [0..<nat k]"
       and rebuild = "\<lambda>s xs ys. init batch_transform xs ys 2"
       and s = "(blank [[[1], [2], [3]], [[4]]] [[5, 6, 7], [8]] 2)\<lparr>dataset_size := 4\<rparr>"
       and fraction = "1 / 2" and shard_size = 5
       and dtraining = "(blank [[[3], [4]]] [[7, 8]] 2)
           \<lparr>input_shape := Some [1], input_size := Some 1, dataset_size := 2,
            freeze_statistics := True\<rparr>"
       and dvalidation = "(blank [[[1], [2]]] [[5, 6]] 2)
           \<lparr>input_shape := Some [1], input_size := Some 1, dataset_size := 2,
            freeze_statistics := True\<rparr>"
       and s' = "(blank [[[1], [2], [3]], [[4]]] [[5, 6, 7], [8]] 2)\<lparr>dataset_size := 4\<rparr>"
       and d = "(blank [[[1], [2]]] [[5, 6]] 2)
           \<lparr>input_shape := Some [1], input_size := Some 1, dataset_size := 2,
            freeze_statistics := True\<rparr>"
       and pct = "\<lambda>y q. Inl PyValueError" and relabel_function = "\<lambda>x y. y"
       and max_percentile = 100 and min_percentile = 0]
    split_of_four_samples
  by simp


subsection \<open>Normalization statistics\<close>

lemma update_x_statistics_frame:
  "update_x_statistics bt s = Inr s'
   \<Longrightarrow> s' = s\<lparr>x_mean := x_mean s', x_standard_dev := x_standard_dev s'\<rparr>"
  by (auto simp: update_x_statistics_def Let_def split: if_splits prod.splits option.splits)

lemma update_y_statistics_frame:
  "update_y_statistics bt s = Inr s'
   \<Longrightarrow> s' = s\<lparr>y_mean := y_mean s', y_standard_dev := y_standard_dev s'\<rparr>"
  by (auto simp: update_y_statistics_def Let_def split: if_splits prod.splits option.splits)

lemma update_x_statistics_values:
  assumes "update_x_statistics bt s = Inr s'"
  shows "\<exists>batches.
           iterate_batches bt (s\<lparr>is_normalized_x := False\<rparr>) (internal_batch_size s)
             True False False = (batches, None)
         \<and> x_mean s' = Some (running column_sum (map fst batches) (Scalar 0) 0)
         \<and> x_standard_dev s'
             = Some (protect (stat_map sqrt
                  (running (square_deviation_sum
                              (running column_sum (map fst batches) (Scalar 0) 0))
                     (map fst batches) (Scalar 0) 0)))"
  using assms
  by (auto simp: update_x_statistics_def Let_def split: if_splits prod.splits option.splits)

lemma update_y_statistics_values:
  assumes "update_y_statistics bt s = Inr s'"
  shows "\<exists>batches.
           iterate_batches bt (s\<lparr>is_normalized_y := False\<rparr>) (internal_batch_size s)
             False True False = (batches, None)
         \<and> y_mean s'
             = Some (running column_sum (map (\<lambda>b. map (\<lambda>v. [v]) (snd b)) batches)
                       (Scalar 0) 0)
         \<and> y_standard_dev s'
             = Some (protect (stat_map sqrt
                  (running (square_deviation_sum
                              (running column_sum
                                 (map (\<lambda>b. map (\<lambda>v. [v]) (snd b)) batches) (Scalar 0) 0))
                     (map (\<lambda>b. map (\<lambda>v. [v]) (snd b)) batches) (Scalar 0) 0)))"
  using assms
  by (auto simp: update_y_statistics_def Let_def split: if_splits prod.splits option.splits)

lemmas statistics_defs =
  update_x_statistics_def update_y_statistics_def running_step_def protect_def
  batch_transform_def in_range_def

lemma flag_not_restored_when_the_stream_raises:
  "update_x_statistics bt ((blank [[[1]]] [[1]] 0)\<lparr>is_normalized_x := True\<rparr>)
     = Inl (InvalidArgument, blank [[[1]]] [[1]] 0)"
  by (simp add: update_x_statistics_def iterate_batches_def blank_def)

text \<open>
  C3, as the claim states it, fails: \<open>update_y_statistics\<close> does not switch the
  transform off. With predictions 1 and 5 and a lower bound of 3 it computes the mean 5
  and, for the variance 0, the standard deviation 1 from the one prediction that passes
  the filter; with \<open>disable_transform\<close> set it would compute 3 and 2 from both.
\<close>

theorem statistics_of_filtered_rows_counterexample:
  "update_y_statistics batch_transform
     ((blank [[[1], [5]]] [[1, 5]] 2)
        \<lparr>dataset_min_percentile := 50, dataset_min_output := Fin 3,
         is_normalized_y := True, dataset_size := 1\<rparr>)
   = Inr ((blank [[[1], [5]]] [[1, 5]] 2)
        \<lparr>dataset_min_percentile := 50, dataset_min_output := Fin 3,
         is_normalized_y := True, dataset_size := 1,
         y_mean := Some (Row [5]), y_standard_dev := Some (Row [1])\<rparr>)
   \<and> update_y_statistics batch_transform
     ((blank [[[1], [5]]] [[1, 5]] 2)
        \<lparr>dataset_min_percentile := 50, dataset_min_output := Fin 3,
         is_normalized_y := True, dataset_size := 1, disable_transform := True\<rparr>)
   = Inr ((blank [[[1], [5]]] [[1, 5]] 2)
        \<lparr>dataset_min_percentile := 50, dataset_min_output := Fin 3,
         is_normalized_y := True, dataset_size := 1, disable_transform := True,
         y_mean := Some (Row [3]), y_standard_dev := Some (Row [2])\<rparr>)"
  by (simp add: stream_defs statistics_defs power2_eq_square)

text \<open>
  C3, amended. \<open>update_x_statistics\<close> and \<open>update_y_statistics\<close> switch only the
  flag \<open>is_normalized_x\<close>, respectively \<open>is_normalized_y\<close>, off while they stream the
  data and leave \<open>disable_transform\<close> as it is: the mean and the standard deviation are
  computed from the unnormalized rows that the stream yields under the filter in force.
  A call that completes has restored the flag, and the dataset differs from the one
  before the call in the two cached statistics of its channel only.
\<close>

theorem update_statistics_stream_and_frame:
  "(update_x_statistics bt s = Inr s' \<longrightarrow>
      s' = s\<lparr>x_mean := x_mean s', x_standard_dev := x_standard_dev s'\<rparr>
    \<and> (\<exists>batches.
          iterate_batches bt (s\<lparr>is_normalized_x := False\<rparr>) (internal_batch_size s)
            True False False = (batches, None)
        \<and> x_mean s' = Some (running column_sum (map fst batches) (Scalar 0) 0)
        \<and> x_standard_dev s'
            = Some (protect (stat_map sqrt
                 (running (square_deviation_sum
                             (running column_sum (map fst batches) (Scalar 0) 0))
                    (map fst batches) (Scalar 0) 0)))))
   \<and> (update_y_statistics bt s = Inr s'' \<longrightarrow>
      s'' = s\<lparr>y_mean := y_mean s'', y_standard_dev := y_standard_dev s''\<rparr>
    \<and> (\<exists>batches.
          iterate_batches bt (s\<lparr>is_normalized_y := False\<rparr>) (internal_batch_size s)
            False True False = (batches, None)
        \<and> y_mean s''
            = Some (running column_sum (map (\<lambda>b. map (\<lambda>v. [v]) (snd b)) batches)
                      (Scalar 0) 0)
        \<and> y_standard_dev s''
            = Some (protect (stat_map sqrt
                 (running (square_deviation_sum
                             (running column_sum
                                (map (\<lambda>b. map (\<lambda>v. [v]) (snd b)) batches) (Scalar 0) 0))
                    (map (\<lambda>b. map (\<lambda>v. [v]) (snd b)) batches) (Scalar 0) 0)))))"
  using update_x_statistics_frame [of bt s s'] update_x_statistics_values [of bt s s']
        update_y_statistics_frame [of bt s s''] update_y_statistics_values [of bt s s'']
  by blast

lemma statistics_of_two_rows:
  "update_x_statistics batch_transform
     ((blank [[[1], [5]]] [[1, 5]] 2)\<lparr>is_normalized_x := True, dataset_size := 2\<rparr>)
   = Inr ((blank [[[1], [5]]] [[1, 5]] 2)
        \<lparr>is_normalized_x := True, dataset_size := 2,
         x_mean := Some (Row [3]), x_standard_dev := Some (Row [2])\<rparr>)"
  "update_y_statistics batch_transform
     ((blank [[[1], [5]]] [[1, 5]] 2)\<lparr>is_normalized_x := True, dataset_size := 2\<rparr>)
   = Inr ((blank [[[1], [5]]] [[1, 5]] 2)
        \<lparr>is_normalized_x := True, dataset_size := 2,
         y_mean := Some (Row [3]), y_standard_dev := Some (Row [2])\<rparr>)"
  by (simp_all add: stream_defs statistics_defs power2_eq_square)

theorem update_statistics_stream_and_frame_witness:
  "update_x_statistics batch_transform
     ((blank [[[1], [5]]] [[1, 5]] 2)\<lparr>is_normalized_x := True, dataset_size := 2\<rparr>)
   = Inr ((blank [[[1], [5]]] [[1, 5]] 2)
        \<lparr>is_normalized_x := True, dataset_size := 2,
         x_mean := Some (Row [3]), x_standard_dev := Some (Row [2])\<rparr>)
   \<and> (blank [[[1], [5]]] [[1, 5]] 2)
        \<lparr>is_normalized_x := True, dataset_size := 2,
         x_mean := Some (Row [3]), x_standard_dev := Some (Row [2])\<rparr>
     = ((blank [[[1], [5]]] [[1, 5]] 2)\<lparr>is_normalized_x := True, dataset_size := 2\<rparr>)
        \<lparr>x_mean := Some (Row [3]), x_standard_dev := Some (Row [2])\<rparr>
   \<and> update_y_statistics batch_transform
     ((blank [[[1], [5]]] [[1, 5]] 2)\<lparr>is_normalized_x := True, dataset_size := 2\<rparr>)
   = Inr ((blank [[[1], [5]]] [[1, 5]] 2)
        \<lparr>is_normalized_x := True, dataset_size := 2,
         y_mean := Some (Row [3]), y_standard_dev := Some (Row [2])\<rparr>)
   \<and> (blank [[[1], [5]]] [[1, 5]] 2)
        \<lparr>is_normalized_x := True, dataset_size := 2,
         y_mean := Some (Row [3]), y_standard_dev := Some (Row [2])\<rparr>
     = ((blank [[[1], [5]]] [[1, 5]] 2)\<lparr>is_normalized_x := True, dataset_size := 2\<rparr>)
        \<lparr>y_mean := Some (Row [3]), y_standard_dev := Some (Row [2])\<rparr>"
  using update_statistics_stream_and_frame
    [where bt = batch_transform
       and s = "(blank [[[1], [5]]] [[1, 5]] 2)\<lparr>is_normalized_x := True, dataset_size := 2\<rparr>"
       and s' = "(blank [[[1], [5]]] [[1, 5]] 2)
        \<lparr>is_normalized_x := True, dataset_size := 2,
         x_mean := Some (Row [3]), x_standard_dev := Some (Row [2])\<rparr>"
       and s'' = "(blank [[[1], [5]]] [[1, 5]] 2)
        \<lparr>is_normalized_x := True, dataset_size := 2,
         y_mean := Some (Row [3]), y_standard_dev := Some (Row [2])\<rparr>"]
    statistics_of_two_rows
  by simp


subsection \<open>Filtering by percentile\<close>

lemma shard_loop_transform_disabled:
  assumes "disable_transform s" "disable_transform s'"
    and "get_num_shards s = get_num_shards s'"
  shows "shard_loop bt s batch_size return_x return_y drop_remainder shard_id
           x_shard_data y_shard_data shard_position y_batch_size x_batch y_batch
         = shard_loop bt' s' batch_size return_x return_y drop_remainder shard_id
           x_shard_data y_shard_data shard_position y_batch_size x_batch y_batch"
proof (induction "length y_shard_data - shard_position"
         arbitrary: shard_position y_batch_size x_batch y_batch rule: less_induct)
  case less
  show ?case
  proof (cases "shard_position < length y_shard_data \<and> y_batch_size < batch_size")
    case True
    then have "length y_shard_data - (shard_position + nat (batch_size - y_batch_size))
                 < length y_shard_data - shard_position"
      by linarith
    note later = less.hyps [OF this]
    show ?thesis
      apply (subst shard_loop.simps [of bt s])
      apply (subst shard_loop.simps [of bt' s'])
      using True assms by (simp add: Let_def later)
  next
    case False
    then show ?thesis
      by (subst shard_loop.simps [of bt s], subst shard_loop.simps [of bt' s'])
         (simp only: if_False)
  qed
qed

lemma shards_loop_transform_disabled:
  assumes "disable_transform s" "disable_transform s'"
    and "num_shards s = num_shards s'"
    and "x_shards s = x_shards s'" "y_shards s = y_shards s'"
  shows "shards_loop bt s batch_size return_x return_y drop_remainder shard_ids
           y_batch_size x_batch y_batch
         = shards_loop bt' s' batch_size return_x return_y drop_remainder shard_ids
           y_batch_size x_batch y_batch"
proof (induction shard_ids arbitrary: y_batch_size x_batch y_batch)
  case Nil
  show ?case by simp
next
  case (Cons shard_id shard_ids)
  have loads: "get_shard_x s (int shard_id) = get_shard_x s' (int shard_id)"
    "get_shard_y s (int shard_id) = get_shard_y s' (int shard_id)"
    using assms by (simp_all add: get_shard_x_def get_shard_y_def get_num_shards_def)
  have loop: "shard_loop bt s batch_size return_x return_y drop_remainder shard_id xd yd 0
                y_batch_size x_batch y_batch
              = shard_loop bt' s' batch_size return_x return_y drop_remainder shard_id xd yd 0
                y_batch_size x_batch y_batch" for xd yd
    using assms by (intro shard_loop_transform_disabled) (simp_all add: get_num_shards_def)
  show ?case
    by (simp add: loads loop Cons.IH cong: sum.case_cong prod.case_cong)
qed

lemma y_property_transform_disabled:
  "y_property bt (s\<lparr>disable_transform := True\<rparr>)
   = y_property bt' (s\<lparr>dataset_min_output := lo, dataset_max_output := hi,
                        disable_transform := True\<rparr>)"
proof -
  have "shards_loop bt (s\<lparr>disable_transform := True\<rparr>) n False True False ids 0 [] []
        = shards_loop bt' (s\<lparr>dataset_min_output := lo, dataset_max_output := hi,
                             disable_transform := True\<rparr>) n False True False ids 0 [] []"
    for n ids
    by (rule shards_loop_transform_disabled) simp_all
  then show ?thesis
    by (simp add: y_property_def iterate_batches_def get_num_shards_def)
qed

lemma update_statistics_keep_filter:
  "update_x_statistics bt s = Inr s'
   \<Longrightarrow> dataset_min_output s' = dataset_min_output s
     \<and> dataset_max_output s' = dataset_max_output s
     \<and> dataset_size s' = dataset_size s \<and> is_normalized_y s' = is_normalized_y s"
  "update_y_statistics bt s = Inr s'
   \<Longrightarrow> dataset_min_output s' = dataset_min_output s
     \<and> dataset_max_output s' = dataset_max_output s
     \<and> dataset_size s' = dataset_size s"
  by (auto simp: update_x_statistics_def update_y_statistics_def Let_def
           split: if_splits prod.splits option.splits)

lemma subsample_thresholds:
  assumes "subsample bt pct s max_percentile min_percentile = Inr s'"
  shows "\<exists>y. y_property bt (s\<lparr>disable_transform := True\<rparr>) = Inr y
          \<and> (if min_percentile > 0
              then \<exists>v. pct y min_percentile = Inr v \<and> dataset_min_output s' = Fin v
              else dataset_min_output s' = NINF)
          \<and> (if max_percentile < 100
              then \<exists>v. pct y max_percentile = Inr v \<and> dataset_max_output s' = Fin v
              else dataset_max_output s' = PINF)
          \<and> dataset_size s'
              = length (filter (\<lambda>v. bound_ge (dataset_max_output s') v
                                  \<and> bound_le (dataset_min_output s') v) y)"
proof -
  from assms obtain y where y: "y_property bt (s\<lparr>disable_transform := True\<rparr>) = Inr y"
    by (auto simp: subsample_def Let_def split: if_splits sum.splits)
  from assms y obtain lo where
    lo: "(if min_percentile > 0 then map_sum id Fin (pct y min_percentile) else Inr NINF)
           = Inr lo"
    by (auto simp: subsample_def Let_def split: if_splits sum.splits)
  from assms y lo obtain hi where
    hi: "(if max_percentile < 100 then map_sum id Fin (pct y max_percentile) else Inr PINF)
           = Inr hi"
    by (auto simp: subsample_def Let_def split: if_splits sum.splits)
  define s5 where
    "s5 = s\<lparr>disable_transform := False, dataset_min_percentile := min_percentile,
            dataset_min_output := lo, dataset_max_percentile := max_percentile,
            dataset_max_output := hi,
            dataset_size := length (filter (\<lambda>v. bound_ge hi v \<and> bound_le lo v) y)\<rparr>"
  from assms y lo hi obtain s6 where
    s6: "(if is_normalized_x s5 then update_x_statistics bt s5 else Inr s5) = Inr s6"
    and s': "(if is_normalized_y s6 then update_y_statistics bt s6 else Inr s6) = Inr s'"
    by (auto simp: subsample_def Let_def s5_def split: if_splits sum.splits)
  have keep6: "dataset_min_output s6 = lo \<and> dataset_max_output s6 = hi
               \<and> dataset_size s6 = length (filter (\<lambda>v. bound_ge hi v \<and> bound_le lo v) y)"
    using s6 update_statistics_keep_filter(1) [of bt s5 s6]
    by (auto simp: s5_def split: if_splits)
  have keep: "dataset_min_output s' = lo \<and> dataset_max_output s' = hi
               \<and> dataset_size s' = length (filter (\<lambda>v. bound_ge hi v \<and> bound_le lo v) y)"
    using s' keep6 update_statistics_keep_filter(2) [of bt s6 s']
    by (auto split: if_splits)
  have "if min_percentile > 0
        then \<exists>v. pct y min_percentile = Inr v \<and> lo = Fin v else lo = NINF"
    using lo by (cases "pct y min_percentile") (auto split: if_splits)
  moreover have "if max_percentile < 100
        then \<exists>v. pct y max_percentile = Inr v \<and> hi = Fin v else hi = PINF"
    using hi by (cases "pct y max_percentile") (auto split: if_splits)
  ultimately show ?thesis
    using y keep by auto
qed

lemma subsample_whole_range:
  assumes "\<not> freeze_statistics s" "\<not> is_normalized_x s" "\<not> is_normalized_y s"
    and "y_property bt (s\<lparr>disable_transform := True\<rparr>) = Inr y"
  shows "subsample bt pct s 100 0
         = Inr (s\<lparr>disable_transform := False,
                  dataset_min_percentile := 0, dataset_min_output := NINF,
                  dataset_max_percentile := 100, dataset_max_output := PINF,
                  dataset_size := length y\<rparr>)"
  using assms by (simp add: subsample_def)

text \<open>
  A call of \<open>subsample\<close> that returns has read the predictions \<open>y\<close> that the stream
  yields with the transform disabled, whatever bounds were in force before; its
  thresholds are the percentiles of \<open>y\<close>, with minus infinity for a minimum percentile
  of 0 and plus infinity for a maximum percentile of 100, and \<open>dataset_size\<close> is the
  number of values of \<open>y\<close> between the thresholds. For the percentiles 0 and 100 this
  number is the length of \<open>y\<close>.
\<close>

lemma subsample_thresholds_from_the_stream:
  "subsample bt pct s max_percentile min_percentile = Inr s' \<longrightarrow>
     (\<exists>y. y_property bt (s\<lparr>disable_transform := True\<rparr>) = Inr y
        \<and> (\<forall>bt' lo hi. y_property bt' (s\<lparr>dataset_min_output := lo, dataset_max_output := hi,
                                         disable_transform := True\<rparr>) = Inr y)
        \<and> (if min_percentile > 0
            then \<exists>v. pct y min_percentile = Inr v \<and> dataset_min_output s' = Fin v
            else dataset_min_output s' = NINF)
        \<and> (if max_percentile < 100
            then \<exists>v. pct y max_percentile = Inr v \<and> dataset_max_output s' = Fin v
            else dataset_max_output s' = PINF)
        \<and> dataset_size s'
            = length (filter (\<lambda>v. bound_ge (dataset_max_output s') v
                                \<and> bound_le (dataset_min_output s') v) y)
        \<and> (min_percentile = 0 \<and> max_percentile = 100 \<longrightarrow>
             dataset_min_output s' = NINF \<and> dataset_max_output s' = PINF
             \<and> dataset_size s' = length y))"
proof
  assume "subsample bt pct s max_percentile min_percentile = Inr s'"
  from subsample_thresholds [OF this] obtain y where
    y: "y_property bt (s\<lparr>disable_transform := True\<rparr>) = Inr y"
    and lo: "if min_percentile > 0
             then \<exists>v. pct y min_percentile = Inr v \<and> dataset_min_output s' = Fin v
             else dataset_min_output s' = NINF"
    and hi: "if max_percentile < 100
             then \<exists>v. pct y max_percentile = Inr v \<and> dataset_max_output s' = Fin v
             else dataset_max_output s' = PINF"
    and size: "dataset_size s'
                = length (filter (\<lambda>v. bound_ge (dataset_max_output s') v
                                    \<and> bound_le (dataset_min_output s') v) y)"
    by blast
  have any: "y_property bt' (s\<lparr>dataset_min_output := lo, dataset_max_output := hi,
                               disable_transform := True\<rparr>) = Inr y" for bt' lo hi
    using y y_property_transform_disabled [where bt = bt and s = s and bt' = bt'
            and lo = lo and hi = hi]
    by simp
  have full: "dataset_min_output s' = NINF \<and> dataset_max_output s' = PINF
              \<and> dataset_size s' = length y"
    if "min_percentile = 0 \<and> max_percentile = 100"
    using that lo hi size by simp
  show "\<exists>y. y_property bt (s\<lparr>disable_transform := True\<rparr>) = Inr y
        \<and> (\<forall>bt' lo hi. y_property bt' (s\<lparr>dataset_min_output := lo, dataset_max_output := hi,
                                         disable_transform := True\<rparr>) = Inr y)
        \<and> (if min_percentile > 0
            then \<exists>v. pct y min_percentile = Inr v \<and> dataset_min_output s' = Fin v
            else dataset_min_output s' = NINF)
        \<and> (if max_percentile < 100
            then \<exists>v. pct y max_percentile = Inr v \<and> dataset_max_output s' = Fin v
            else dataset_max_output s' = PINF)
        \<and> dataset_size s'
            = length (filter (\<lambda>v. bound_ge (dataset_max_output s') v
                                \<and> bound_le (dataset_min_output s') v) y)
        \<and> (min_percentile = 0 \<and> max_percentile = 100 \<longrightarrow>
             dataset_min_output s' = NINF \<and> dataset_max_output s' = PINF
             \<and> dataset_size s' = length y)"
    using y any lo hi size full by blast
qed

lemma subsample_all_after_a_filter:
  "subsample batch_transform pct
     ((blank [[[1], [2], [3]], [[4]]] [[5, 6, 7], [8]] 2)
        \<lparr>dataset_min_percentile := 50, dataset_min_output := Fin (13 / 2),
         dataset_size := 2\<rparr>) 100 0
   = Inr ((blank [[[1], [2], [3]], [[4]]] [[5, 6, 7], [8]] 2)\<lparr>dataset_size := 4\<rparr>)"
  by (simp add: subsample_def y_property_def stream_defs)

text \<open>
  With a batch size of at least one, \<open>subsample\<close> reads the stored predictions of a
  dataset with paired shards whose last shard has rows.
\<close>

lemma y_property_stored_predictions:
  assumes "1 \<le> internal_batch_size s" "paired s"
    and "get_num_shards s = 0 \<or> y_shards s ! (get_num_shards s - 1) \<noteq> []"
    and "stored_y s \<noteq> []"
  shows "y_property bt (s\<lparr>disable_transform := True\<rparr>) = Inr (stored_y s)"
proof -
  let ?s = "s\<lparr>disable_transform := True\<rparr>"
  have "\<exists>batches. iterate_batches bt ?s (internal_batch_size ?s) False True False
                     = (batches, None)
           \<and> concat (map fst batches) = (if False then stored_x ?s else [])
           \<and> concat (map snd batches) = (if True then stored_y ?s else [])"
    using assms(1-3)
    by (intro iterate_batches_stored_rows)
       (simp_all add: paired_def get_num_shards_def)
  then obtain batches where
    "iterate_batches bt ?s (internal_batch_size ?s) False True False = (batches, None)"
    "concat (map snd batches) = stored_y s"
    by (auto simp: stored_y_def get_num_shards_def)
  with assms(4) show ?thesis
    by (auto simp: y_property_def)
qed

text \<open>
  C8. \<open>subsample\<close> does not read the full y-distribution of every dataset. On three
  rows in a first shard, an empty second shard and an internal batch size of two, the
  dataset of C7, the stored predictions are 5, 6 and 7; the stream with the transform
  disabled yields 5 and 6 and loses 7 (C1). \<open>subsample\<close> at the percentiles 0 and 100
  leaves \<open>dataset_size\<close> at 2, which is not the number of samples, and at a minimum
  percentile of 50 it takes the threshold from the percentile of 5 and 6 and counts
  among 5 and 6.
\<close>

theorem subsample_misses_predictions_before_empty_last_shard:
  "init batch_transform [[[1], [2], [3]], []] [[5, 6, 7], []] 2
     = Inr ((blank [[[1], [2], [3]], []] [[5, 6, 7], []] 2)
              \<lparr>input_shape := Some [1], input_size := Some 1, dataset_size := 2\<rparr>)
   \<and> stored_y ((blank [[[1], [2], [3]], []] [[5, 6, 7], []] 2)
              \<lparr>input_shape := Some [1], input_size := Some 1, dataset_size := 2\<rparr>)
     = [5, 6, 7]
   \<and> y_property batch_transform
        ((blank [[[1], [2], [3]], []] [[5, 6, 7], []] 2)
           \<lparr>input_shape := Some [1], input_size := Some 1, dataset_size := 2,
            disable_transform := True\<rparr>)
     = Inr [5, 6]
   \<and> subsample batch_transform pct
        ((blank [[[1], [2], [3]], []] [[5, 6, 7], []] 2)
           \<lparr>input_shape := Some [1], input_size := Some 1, dataset_size := 2\<rparr>) 100 0
     = Inr ((blank [[[1], [2], [3]], []] [[5, 6, 7], []] 2)
              \<lparr>input_shape := Some [1], input_size := Some 1, dataset_size := 2\<rparr>)
   \<and> subsample batch_transform pct
        ((blank [[[1], [2], [3]], []] [[5, 6, 7], []] 2)
           \<lparr>input_shape := Some [1], input_size := Some 1, dataset_size := 2\<rparr>) 100 50
     = (case pct [5, 6] 50 of
          Inl e \<Rightarrow>
            Inl (e, (blank [[[1], [2], [3]], []] [[5, 6, 7], []] 2)
                      \<lparr>input_shape := Some [1], input_size := Some 1, dataset_size := 2\<rparr>)
        | Inr v \<Rightarrow>
            Inr ((blank [[[1], [2], [3]], []] [[5, 6, 7], []] 2)
                   \<lparr>input_shape := Some [1], input_size := Some 1,
                    dataset_min_percentile := 50, dataset_min_output := Fin v,
                    dataset_size := length (filter (\<lambda>y. v \<le> y) [5, 6])\<rparr>))"
  by (simp add: init_def stream_defs subsample_def y_property_def stored_y_def
        get_num_shards_def batch_transform_def in_range_def split: sum.splits)


subsection \<open>Normalizing and denormalizing an array\<close>

lemma protect_nonzero: "nonzero (protect sd)"
  by (cases sd) (auto simp: protect_def)

lemma update_statistics_nonzero:
  "update_x_statistics bt s0 = Inr s
   \<Longrightarrow> \<exists>m sd. x_mean s = Some m \<and> x_standard_dev s = Some sd \<and> nonzero sd"
  "update_y_statistics bt s0 = Inr s
   \<Longrightarrow> \<exists>m sd. y_mean s = Some m \<and> y_standard_dev s = Some sd \<and> nonzero sd"
  by (auto simp: update_x_statistics_def update_y_statistics_def Let_def protect_nonzero
           split: if_splits prod.splits option.splits)

lemma map2_replicate: "map2 f row (replicate (length row) a) = map (\<lambda>v. f v a) row"
  by (induction row) auto

lemma stretch_aligned:
  "fits (Row m) (length row)
   \<Longrightarrow> stretch f m row = map2 f row (aligned (Row m) (length row))"
  by (auto simp: stretch_def map2_replicate split: list.splits)

lemma elementwise_aligned:
  assumes "list_all (\<lambda>row. fits st (length row)) x"
  shows "elementwise f x st = Inr (map (\<lambda>row. map2 f row (aligned st (length row))) x)"
proof (cases st)
  case (Scalar a)
  then show ?thesis by (simp add: map2_replicate)
next
  case (Row m)
  with assms have "list_all (\<lambda>row. length row = length m \<or> length m = 1 \<or> length row = 1) x"
    by (auto simp: list_all_iff)
  moreover have "map (stretch f m) x
                   = map (\<lambda>row. map2 f row (aligned (Row m) (length row))) x"
    using assms Row by (intro map_cong refl stretch_aligned) (auto simp: list_all_iff)
  ultimately show ?thesis using Row by simp
next
  case NaN
  with assms have "x = []" by (cases x) simp_all
  with NaN show ?thesis by simp
qed

lemma length_aligned: "fits st n \<Longrightarrow> length (aligned st n) = n"
  by (cases st) (auto split: list.splits)

lemma aligned_nonzero: "nonzero st \<Longrightarrow> fits st n \<Longrightarrow> 0 \<notin> set (aligned st n)"
  by (cases st) (auto split: list.splits)

lemma map2_entry_minus:
  "length r = length al
   \<Longrightarrow> map2 entry_minus (map Finite r) al = map Finite (map2 (\<lambda>v a. v - a) r al)"
  by (induction r al rule: list_induct2) auto

lemma map2_entry_plus:
  "length r = length al
   \<Longrightarrow> map2 entry_plus (map Finite r) al = map Finite (map2 (\<lambda>v a. v + a) r al)"
  by (induction r al rule: list_induct2) auto

lemma map2_entry_divide:
  "length r = length al \<Longrightarrow> 0 \<notin> set al
   \<Longrightarrow> map2 entry_divide (map Finite r) al = map Finite (map2 (\<lambda>v d. v / d) r al)"
  by (induction r al rule: list_induct2) auto

lemma map2_entry_times:
  "length r = length al
   \<Longrightarrow> map2 entry_times (map Finite r) al = map Finite (map2 (\<lambda>v d. v * d) r al)"
  by (induction r al rule: list_induct2) auto

lemma map2_divide_times:
  "length r = length al \<Longrightarrow> 0 \<notin> set al
   \<Longrightarrow> map2 (\<lambda>v d. v * d) (map2 (\<lambda>v d. v / d) r al) al = (r :: real list)"
  by (induction r al rule: list_induct2) auto

lemma map2_minus_plus:
  "length r = length al
   \<Longrightarrow> map2 (\<lambda>v a. v + a) (map2 (\<lambda>v a. v - a) r al) al = (r :: real list)"
  by (induction r al rule: list_induct2) auto

lemma normalize_row:
  assumes "fits m (length r)" "fits sd (length r)" "nonzero sd"
  shows "map2 entry_divide (map2 entry_minus (map Finite r) (aligned m (length r)))
           (aligned sd (length r))
         = map Finite (map2 (\<lambda>v d. v / d) (map2 (\<lambda>v a. v - a) r (aligned m (length r)))
             (aligned sd (length r)))"
proof -
  have lm: "length r = length (aligned m (length r))"
    using assms(1) by (simp add: length_aligned)
  have ls: "length (map2 (\<lambda>v a. v - a) r (aligned m (length r)))
            = length (aligned sd (length r))"
    using assms(1,2) by (simp add: length_aligned)
  have nz: "0 \<notin> set (aligned sd (length r))"
    using assms(2,3) by (rule aligned_nonzero [rotated])
  show ?thesis
    by (simp only: map2_entry_minus [OF lm] map2_entry_divide [OF ls nz])
qed

lemma denormalize_row:
  assumes "fits m (length r)" "fits sd (length r)" "nonzero sd"
  shows "map2 entry_plus
           (map2 entry_times
              (map Finite (map2 (\<lambda>v d. v / d) (map2 (\<lambda>v a. v - a) r (aligned m (length r)))
                 (aligned sd (length r))))
              (aligned sd (length r)))
           (aligned m (length r))
         = map Finite r"
proof -
  let ?c = "map2 (\<lambda>v a. v - a) r (aligned m (length r))"
  let ?z = "map2 (\<lambda>v d. v / d) ?c (aligned sd (length r))"
  have lm: "length r = length (aligned m (length r))"
    using assms(1) by (simp add: length_aligned)
  have ls: "length ?c = length (aligned sd (length r))"
    using assms(1,2) by (simp add: length_aligned)
  have lz: "length ?z = length (aligned sd (length r))"
    using assms(1,2) by (simp add: length_aligned)
  have nz: "0 \<notin> set (aligned sd (length r))"
    using assms(2,3) by (rule aligned_nonzero [rotated])
  have lc: "length ?c = length (aligned m (length r))"
    using assms(1) by (simp add: length_aligned)
  show ?thesis
    by (simp only: map2_entry_times [OF lz] map2_divide_times [OF ls nz]
          map2_entry_plus [OF lc] map2_minus_plus [OF lm])
qed

lemma length_standardized:
  "fits m (length r) \<Longrightarrow> fits sd (length r) \<Longrightarrow> length (standardized m sd r) = length r"
  by (simp add: standardized_def length_aligned)

text \<open>
  The normalized array, for an array of numbers whose rows fit both statistics, and the
  array that denormalizing it gives back.
\<close>

lemma normalize_with_numbers:
  assumes "list_all (\<lambda>row. fits m (length row) \<and> fits sd (length row)) x" "nonzero sd"
  shows "normalize_with (m, sd) (map (map Finite) x)
         = Inr (map (\<lambda>r. map Finite (standardized m sd r)) x)"
proof -
  have fit: "fits m (length r)" "fits sd (length r)" if "r \<in> set x" for r
    using assms(1) that by (simp_all add: list_all_iff)
  let ?c = "map (\<lambda>r. map2 entry_minus (map Finite r) (aligned m (length r))) x"
  have "list_all (\<lambda>row. fits m (length row)) (map (map Finite) x)"
    using fit(1) by (simp add: list_all_iff)
  then have "elementwise entry_minus (map (map Finite) x) m
             = Inr (map (\<lambda>row. map2 entry_minus row (aligned m (length row)))
                      (map (map Finite) x))"
    by (rule elementwise_aligned)
  also have "map (\<lambda>row. map2 entry_minus row (aligned m (length row))) (map (map Finite) x)
             = ?c"
    by (simp only: map_map o_def length_map)
  finally have centred: "elementwise entry_minus (map (map Finite) x) m = Inr ?c" .
  have "list_all (\<lambda>row. fits sd (length row)) ?c"
    using fit by (simp add: list_all_iff length_aligned)
  then have "elementwise entry_divide ?c sd
             = Inr (map (\<lambda>row. map2 entry_divide row (aligned sd (length row))) ?c)"
    by (rule elementwise_aligned)
  also have "map (\<lambda>row. map2 entry_divide row (aligned sd (length row))) ?c
             = map (\<lambda>r. map Finite (standardized m sd r)) x"
  proof -
    have "map2 entry_divide (map2 entry_minus (map Finite r) (aligned m (length r)))
            (aligned sd (length (map2 entry_minus (map Finite r) (aligned m (length r)))))
          = map Finite (standardized m sd r)" if "r \<in> set x" for r
    proof -
      have "length (map2 entry_minus (map Finite r) (aligned m (length r))) = length r"
        using fit(1) [OF that] by (simp add: length_aligned)
      then show ?thesis
        using normalize_row [OF fit(1) [OF that] fit(2) [OF that] assms(2)]
        by (simp only: standardized_def)
    qed
    then show ?thesis
      by (simp only: map_map o_def cong: map_cong)
  qed
  finally show ?thesis
    by (simp only: normalize_with_def centred sum.case fst_conv snd_conv)
qed

lemma denormalize_with_numbers:
  assumes "list_all (\<lambda>row. fits m (length row) \<and> fits sd (length row)) x" "nonzero sd"
  shows "denormalize_with (m, sd) (map (\<lambda>r. map Finite (standardized m sd r)) x)
         = Inr (map (map Finite) x)"
proof -
  have fit: "fits m (length r)" "fits sd (length r)" if "r \<in> set x" for r
    using assms(1) that by (simp_all add: list_all_iff)
  let ?z = "map (\<lambda>r. map Finite (standardized m sd r)) x"
  let ?t = "map (\<lambda>r. map2 entry_times (map Finite (standardized m sd r))
                      (aligned sd (length r))) x"
  have "list_all (\<lambda>row. fits sd (length row)) ?z"
    using fit by (simp add: list_all_iff length_standardized)
  then have "elementwise entry_times ?z sd
             = Inr (map (\<lambda>row. map2 entry_times row (aligned sd (length row))) ?z)"
    by (rule elementwise_aligned)
  also have "map (\<lambda>row. map2 entry_times row (aligned sd (length row))) ?z = ?t"
  proof -
    have "map2 entry_times (map Finite (standardized m sd r))
            (aligned sd (length (map Finite (standardized m sd r))))
          = map2 entry_times (map Finite (standardized m sd r)) (aligned sd (length r))"
      if "r \<in> set x" for r
      using fit [OF that] by (simp only: length_map length_standardized)
    then show ?thesis
      by (simp only: map_map o_def cong: map_cong)
  qed
  finally have scaled: "elementwise entry_times ?z sd = Inr ?t" .
  have "list_all (\<lambda>row. fits m (length row)) ?t"
    using fit by (simp add: list_all_iff length_standardized length_aligned)
  then have "elementwise entry_plus ?t m
             = Inr (map (\<lambda>row. map2 entry_plus row (aligned m (length row))) ?t)"
    by (rule elementwise_aligned)
  also have "map (\<lambda>row. map2 entry_plus row (aligned m (length row))) ?t
             = map (map Finite) x"
  proof -
    have "map2 entry_plus
            (map2 entry_times (map Finite (standardized m sd r)) (aligned sd (length r)))
            (aligned m (length (map2 entry_times (map Finite (standardized m sd r))
                                  (aligned sd (length r)))))
          = map Finite r" if "r \<in> set x" for r
    proof -
      have "length (map2 entry_times (map Finite (standardized m sd r))
                      (aligned sd (length r))) = length r"
        using fit [OF that] by (simp add: length_standardized length_aligned)
      then show ?thesis
        using denormalize_row [OF fit(1) [OF that] fit(2) [OF that] assms(2)]
        by (simp only: standardized_def)
    qed
    then show ?thesis
      by (simp only: map_map o_def cong: map_cong)
  qed
  finally show ?thesis
    by (simp only: denormalize_with_def scaled sum.case fst_conv snd_conv)
qed

lemma x_statistics_cached:
  "x_mean s = Some m \<Longrightarrow> x_standard_dev s = Some sd \<Longrightarrow> x_statistics bt s = Inr ((m, sd), s)"
  by (simp add: x_statistics_def)

lemma y_statistics_cached:
  "y_mean s = Some m \<Longrightarrow> y_standard_dev s = Some sd \<Longrightarrow> y_statistics bt s = Inr ((m, sd), s)"
  by (simp add: y_statistics_def)

lemma denormalize_normalize_x:
  assumes "x_mean s = Some m" "x_standard_dev s = Some sd" "nonzero sd"
    and "list_all (\<lambda>row. fits m (length row) \<and> fits sd (length row)) x"
  shows "\<exists>x'. normalize_x bt s (map (map Finite) x) = Inr (x', s)
             \<and> denormalize_x bt s x' = Inr (map (map Finite) x, s)"
  using assms
  by (simp add: normalize_x_def denormalize_x_def x_statistics_cached
        normalize_with_numbers denormalize_with_numbers)

lemma denormalize_normalize_y:
  assumes "y_mean s = Some m" "y_standard_dev s = Some sd" "nonzero sd"
    and "list_all (\<lambda>row. fits m (length row) \<and> fits sd (length row)) y"
  shows "\<exists>y'. normalize_y bt s (map (map Finite) y) = Inr (y', s)
             \<and> denormalize_y bt s y' = Inr (map (map Finite) y, s)"
  using assms
  by (simp add: normalize_y_def denormalize_y_def y_statistics_cached
        normalize_with_numbers denormalize_with_numbers)

text \<open>
  C6, as the claim states it, fails for two kinds of array. The statistics of designs of
  two entries, means 3 and 4 and standard deviations 2 and 2, stretch an array of one
  column to two columns, and denormalizing gives back an array of two columns. And the
  statistics of a dataset whose filter lets no row pass are NaN: after
  \<open>subsample\<close> at the percentiles 50 and 50 of the predictions 1 and 5, whose median is
  3, the stream yields one batch without rows, both running statistics are 0/0, and
  normalizing and denormalizing give NaN for every entry.
\<close>

theorem denormalize_after_normalize_counterexample:
  "init batch_transform [[[1, 2], [5, 6]]] [[1, 5]] 2
   = Inr ((blank [[[1, 2], [5, 6]]] [[1, 5]] 2)
        \<lparr>input_shape := Some [2], input_size := Some 2, dataset_size := 2\<rparr>)
   \<and> update_x_statistics batch_transform
       ((blank [[[1, 2], [5, 6]]] [[1, 5]] 2)
          \<lparr>input_shape := Some [2], input_size := Some 2, dataset_size := 2\<rparr>)
     = Inr ((blank [[[1, 2], [5, 6]]] [[1, 5]] 2)
          \<lparr>input_shape := Some [2], input_size := Some 2, dataset_size := 2,
           x_mean := Some (Row [3, 4]), x_standard_dev := Some (Row [2, 2])\<rparr>)
   \<and> normalize_x batch_transform
       ((blank [[[1, 2], [5, 6]]] [[1, 5]] 2)
          \<lparr>input_shape := Some [2], input_size := Some 2, dataset_size := 2,
           x_mean := Some (Row [3, 4]), x_standard_dev := Some (Row [2, 2])\<rparr>)
       [[Finite 5]]
     = Inr ([[Finite 1, Finite (1 / 2)]],
            (blank [[[1, 2], [5, 6]]] [[1, 5]] 2)
              \<lparr>input_shape := Some [2], input_size := Some 2, dataset_size := 2,
               x_mean := Some (Row [3, 4]), x_standard_dev := Some (Row [2, 2])\<rparr>)
   \<and> denormalize_x batch_transform
       ((blank [[[1, 2], [5, 6]]] [[1, 5]] 2)
          \<lparr>input_shape := Some [2], input_size := Some 2, dataset_size := 2,
           x_mean := Some (Row [3, 4]), x_standard_dev := Some (Row [2, 2])\<rparr>)
       [[Finite 1, Finite (1 / 2)]]
     = Inr ([[Finite 5, Finite 5]],
            (blank [[[1, 2], [5, 6]]] [[1, 5]] 2)
              \<lparr>input_shape := Some [2], input_size := Some 2, dataset_size := 2,
               x_mean := Some (Row [3, 4]), x_standard_dev := Some (Row [2, 2])\<rparr>)
   \<and> init batch_transform [[[1], [5]]] [[1, 5]] 2
     = Inr ((blank [[[1], [5]]] [[1, 5]] 2)
          \<lparr>input_shape := Some [1], input_size := Some 1, dataset_size := 2\<rparr>)
   \<and> subsample batch_transform (\<lambda>y q. Inr 3)
       ((blank [[[1], [5]]] [[1, 5]] 2)
          \<lparr>input_shape := Some [1], input_size := Some 1, dataset_size := 2\<rparr>) 50 50
     = Inr ((blank [[[1], [5]]] [[1, 5]] 2)
          \<lparr>input_shape := Some [1], input_size := Some 1,
           dataset_min_percentile := 50, dataset_min_output := Fin 3,
           dataset_max_percentile := 50, dataset_max_output := Fin 3, dataset_size := 0\<rparr>)
   \<and> update_x_statistics batch_transform
       ((blank [[[1], [5]]] [[1, 5]] 2)
          \<lparr>input_shape := Some [1], input_size := Some 1,
           dataset_min_percentile := 50, dataset_min_output := Fin 3,
           dataset_max_percentile := 50, dataset_max_output := Fin 3, dataset_size := 0\<rparr>)
     = Inr ((blank [[[1], [5]]] [[1, 5]] 2)
          \<lparr>input_shape := Some [1], input_size := Some 1,
           dataset_min_percentile := 50, dataset_min_output := Fin 3,
           dataset_max_percentile := 50, dataset_max_output := Fin 3, dataset_size := 0,
           x_mean := Some NaN, x_standard_dev := Some NaN\<rparr>)
   \<and> normalize_x batch_transform
       ((blank [[[1], [5]]] [[1, 5]] 2)
          \<lparr>input_shape := Some [1], input_size := Some 1,
           dataset_min_percentile := 50, dataset_min_output := Fin 3,
           dataset_max_percentile := 50, dataset_max_output := Fin 3, dataset_size := 0,
           x_mean := Some NaN, x_standard_dev := Some NaN\<rparr>)
       [[Finite 7]]
     = Inr ([[NotANumber]],
            (blank [[[1], [5]]] [[1, 5]] 2)
              \<lparr>input_shape := Some [1], input_size := Some 1,
               dataset_min_percentile := 50, dataset_min_output := Fin 3,
               dataset_max_percentile := 50, dataset_max_output := Fin 3, dataset_size := 0,
               x_mean := Some NaN, x_standard_dev := Some NaN\<rparr>)
   \<and> denormalize_x batch_transform
       ((blank [[[1], [5]]] [[1, 5]] 2)
          \<lparr>input_shape := Some [1], input_size := Some 1,
           dataset_min_percentile := 50, dataset_min_output := Fin 3,
           dataset_max_percentile := 50, dataset_max_output := Fin 3, dataset_size := 0,
           x_mean := Some NaN, x_standard_dev := Some NaN\<rparr>)
       [[NotANumber]]
     = Inr ([[NotANumber]],
            (blank [[[1], [5]]] [[1, 5]] 2)
              \<lparr>input_shape := Some [1], input_size := Some 1,
               dataset_min_percentile := 50, dataset_min_output := Fin 3,
               dataset_max_percentile := 50, dataset_max_output := Fin 3, dataset_size := 0,
               x_mean := Some NaN, x_standard_dev := Some NaN\<rparr>)"
  by (simp add: init_def stream_defs statistics_defs power2_eq_square subsample_def
        y_property_def normalize_x_def denormalize_x_def x_statistics_def
        normalize_with_def denormalize_with_def stretch_def)

text \<open>
  C6. Once \<open>update_x_statistics\<close> (\<open>update_y_statistics\<close>) has computed the statistics,
  the cached standard deviation has no zero entry; and for every array of numbers whose
  rows have a width that fits the cached mean and standard deviation (each is a scalar,
  or has the width of the row, or has one entry; a statistic that is NaN fits no row),
  \<open>normalize_x\<close> returns an array of which \<open>denormalize_x\<close> returns the array that
  was normalized, in exact arithmetic. The same holds for y.
\<close>

theorem denormalize_after_normalize:
  "(update_x_statistics bt s0 = Inr s \<longrightarrow>
      (\<exists>m sd. x_mean s = Some m \<and> x_standard_dev s = Some sd \<and> nonzero sd
         \<and> (list_all (\<lambda>row. fits m (length row) \<and> fits sd (length row)) x \<longrightarrow>
              (\<exists>x'. normalize_x bt s (map (map Finite) x) = Inr (x', s)
                   \<and> denormalize_x bt s x' = Inr (map (map Finite) x, s)))))
   \<and> (update_y_statistics bt t0 = Inr t \<longrightarrow>
      (\<exists>m sd. y_mean t = Some m \<and> y_standard_dev t = Some sd \<and> nonzero sd
         \<and> (list_all (\<lambda>row. fits m (length row) \<and> fits sd (length row)) y \<longrightarrow>
              (\<exists>y'. normalize_y bt t (map (map Finite) y) = Inr (y', t)
                   \<and> denormalize_y bt t y' = Inr (map (map Finite) y, t)))))"
proof (intro conjI impI)
  assume "update_x_statistics bt s0 = Inr s"
  from update_statistics_nonzero(1) [OF this] obtain m sd where
    cached: "x_mean s = Some m" "x_standard_dev s = Some sd" "nonzero sd"
    by blast
  then show "\<exists>m sd. x_mean s = Some m \<and> x_standard_dev s = Some sd \<and> nonzero sd
         \<and> (list_all (\<lambda>row. fits m (length row) \<and> fits sd (length row)) x \<longrightarrow>
              (\<exists>x'. normalize_x bt s (map (map Finite) x) = Inr (x', s)
                   \<and> denormalize_x bt s x' = Inr (map (map Finite) x, s)))"
    using denormalize_normalize_x [OF cached, of x bt] by blast
next
  assume "update_y_statistics bt t0 = Inr t"
  from update_statistics_nonzero(2) [OF this] obtain m sd where
    cached: "y_mean t = Some m" "y_standard_dev t = Some sd" "nonzero sd"
    by blast
  then show "\<exists>m sd. y_mean t = Some m \<and> y_standard_dev t = Some sd \<and> nonzero sd
         \<and> (list_all (\<lambda>row. fits m (length row) \<and> fits sd (length row)) y \<longrightarrow>
              (\<exists>y'. normalize_y bt t (map (map Finite) y) = Inr (y', t)
                   \<and> denormalize_y bt t y' = Inr (map (map Finite) y, t)))"
    using denormalize_normalize_y [OF cached, of y bt] by blast
qed

lemma normalize_two_designs:
  "normalize_x batch_transform
     ((blank [[[1], [5]]] [[1, 5]] 2)
        \<lparr>is_normalized_x := True, dataset_size := 2,
         x_mean := Some (Row [3]), x_standard_dev := Some (Row [2])\<rparr>)
     [[Finite 7], [Finite 0]]
   = Inr ([[Finite 2], [Finite (- 3 / 2)]],
          (blank [[[1], [5]]] [[1, 5]] 2)
            \<lparr>is_normalized_x := True, dataset_size := 2,
             x_mean := Some (Row [3]), x_standard_dev := Some (Row [2])\<rparr>)"
  by (simp add: normalize_x_def x_statistics_def normalize_with_def stretch_def)

lemma normalize_two_predictions:
  "normalize_y batch_transform
     ((blank [[[1], [5]]] [[1, 5]] 2)
        \<lparr>is_normalized_x := True, dataset_size := 2,
         y_mean := Some (Row [3]), y_standard_dev := Some (Row [2])\<rparr>)
     [[Finite 9], [Finite 3]]
   = Inr ([[Finite 3], [Finite 0]],
          (blank [[[1], [5]]] [[1, 5]] 2)
            \<lparr>is_normalized_x := True, dataset_size := 2,
             y_mean := Some (Row [3]), y_standard_dev := Some (Row [2])\<rparr>)"
  by (simp add: normalize_y_def y_statistics_def normalize_with_def stretch_def)

theorem denormalize_after_normalize_witness:
  "update_x_statistics batch_transform
     ((blank [[[1], [5]]] [[1, 5]] 2)\<lparr>is_normalized_x := True, dataset_size := 2\<rparr>)
   = Inr ((blank [[[1], [5]]] [[1, 5]] 2)
        \<lparr>is_normalized_x := True, dataset_size := 2,
         x_mean := Some (Row [3]), x_standard_dev := Some (Row [2])\<rparr>)
   \<and> normalize_x batch_transform
     ((blank [[[1], [5]]] [[1, 5]] 2)
        \<lparr>is_normalized_x := True, dataset_size := 2,
         x_mean := Some (Row [3]), x_standard_dev := Some (Row [2])\<rparr>)
     [[Finite 7], [Finite 0]]
   = Inr ([[Finite 2], [Finite (- 3 / 2)]],
          (blank [[[1], [5]]] [[1, 5]] 2)
            \<lparr>is_normalized_x := True, dataset_size := 2,
             x_mean := Some (Row [3]), x_standard_dev := Some (Row [2])\<rparr>)
   \<and> denormalize_x batch_transform
     ((blank [[[1], [5]]] [[1, 5]] 2)
        \<lparr>is_normalized_x := True, dataset_size := 2,
         x_mean := Some (Row [3]), x_standard_dev := Some (Row [2])\<rparr>)
     [[Finite 2], [Finite (- 3 / 2)]]
   = Inr ([[Finite 7], [Finite 0]],
          (blank [[[1], [5]]] [[1, 5]] 2)
            \<lparr>is_normalized_x := True, dataset_size := 2,
             x_mean := Some (Row [3]), x_standard_dev := Some (Row [2])\<rparr>)
   \<and> update_y_statistics batch_transform
     ((blank [[[1], [5]]] [[1, 5]] 2)\<lparr>is_normalized_x := True, dataset_size := 2\<rparr>)
   = Inr ((blank [[[1], [5]]] [[1, 5]] 2)
        \<lparr>is_normalized_x := True, dataset_size := 2,
         y_mean := Some (Row [3]), y_standard_dev := Some (Row [2])\<rparr>)
   \<and> normalize_y batch_transform
     ((blank [[[1], [5]]] [[1, 5]] 2)
        \<lparr>is_normalized_x := True, dataset_size := 2,
         y_mean := Some (Row [3]), y_standard_dev := Some (Row [2])\<rparr>)
     [[Finite 9], [Finite 3]]
   = Inr ([[Finite 3], [Finite 0]],
          (blank [[[1], [5]]] [[1, 5]] 2)
            \<lparr>is_normalized_x := True, dataset_size := 2,
             y_mean := Some (Row [3]), y_standard_dev := Some (Row [2])\<rparr>)
   \<and> denormalize_y batch_transform
     ((blank [[[1], [5]]] [[1, 5]] 2)
        \<lparr>is_normalized_x := True, dataset_size := 2,
         y_mean := Some (Row [3]), y_standard_dev := Some (Row [2])\<rparr>)
     [[Finite 3], [Finite 0]]
   = Inr ([[Finite 9], [Finite 3]],
          (blank [[[1], [5]]] [[1, 5]] 2)
            \<lparr>is_normalized_x := True, dataset_size := 2,
             y_mean := Some (Row [3]), y_standard_dev := Some (Row [2])\<rparr>)"
  using denormalize_after_normalize
    [where bt = batch_transform
       and ?s0.0 = "(blank [[[1], [5]]] [[1, 5]] 2)\<lparr>is_normalized_x := True, dataset_size := 2\<rparr>"
       and s = "(blank [[[1], [5]]] [[1, 5]] 2)
        \<lparr>is_normalized_x := True, dataset_size := 2,
         x_mean := Some (Row [3]), x_standard_dev := Some (Row [2])\<rparr>"
       and x = "[[7], [0]]"
       and ?t0.0 = "(blank [[[1], [5]]] [[1, 5]] 2)\<lparr>is_normalized_x := True, dataset_size := 2\<rparr>"
       and t = "(blank [[[1], [5]]] [[1, 5]] 2)
        \<lparr>is_normalized_x := True, dataset_size := 2,
         y_mean := Some (Row [3]), y_standard_dev := Some (Row [2])\<rparr>"
       and y = "[[9], [3]]"]
    statistics_of_two_rows normalize_two_designs normalize_two_predictions
  by simp

end
